theory Spec2Isabelle
  imports Main
begin

section \<open>Configuration model (auth.go, lines 41-88)\<close>

text \<open>
  Every Go struct is a record with the fields of the source, and every pointer field is an
  \<open>option\<close>: \<open>None\<close> is the nil pointer. Field names that occur in more than one
  struct (\<open>Name\<close>, \<open>Namespace\<close>, ...) are written with the record's name in front.
\<close>

record X509Config =
  ClientCAFile :: string

record AuthnHeaderConfig =
  Enabled :: bool
  UserFieldName :: string
  GroupsFieldName :: string
  GroupSeparator :: string

record AuthnConfig =
  X509 :: "X509Config option"
  Header :: "AuthnHeaderConfig option"

record QueryParameterRewriteConfig =
  Name :: string

record SubjectAccessReviewRewrites =
  ByQueryParameter :: "QueryParameterRewriteConfig option"

record ResourceAttributes =
  Namespace :: string
  APIGroup :: string
  APIVersion :: string
  Resource :: string
  Subresource :: string
  Name :: string

record AuthzConfig =
  Rewrites :: "SubjectAccessReviewRewrites option"
  ResourceAttributes :: "ResourceAttributes option"

record AuthConfig =
  Authentication :: "AuthnConfig option"
  Authorization :: "AuthzConfig option"

subsection \<open>DeepCopy (auth.go, lines 90-130)\<close>

text \<open>
  The receiver is a non-nil \<open>*AuthConfig\<close>. The copies of the \<open>X509\<close> and \<open>Header\<close>
  blocks (lines 98-111) are a helper each. \<open>res\<close> starts with a fresh, empty
  \<open>AuthnConfig\<close> (line 92) and with \<open>Authorization\<close> nil; the authorization block is
  built only when \<open>c.Authorization.ResourceAttributes\<close> is non-nil, and the literal of
  lines 116-125 names the field \<open>ResourceAttributes\<close> alone, so \<open>Rewrites\<close> of the result
  is the zero value, nil.
\<close>

definition copyX509 :: "X509Config option \<Rightarrow> X509Config option" where
  "copyX509 x =
     (case x of
        None \<Rightarrow> None
      | Some x509 \<Rightarrow> Some \<lparr>ClientCAFile = ClientCAFile x509\<rparr>)"

definition copyHeader :: "AuthnHeaderConfig option \<Rightarrow> AuthnHeaderConfig option" where
  "copyHeader x =
     (case x of
        None \<Rightarrow> None
      | Some hc \<Rightarrow>
          Some \<lparr>Enabled = Enabled hc,
                UserFieldName = UserFieldName hc,
                GroupsFieldName = GroupsFieldName hc,
                GroupSeparator = GroupSeparator hc\<rparr>)"

definition DeepCopy :: "AuthConfig \<Rightarrow> AuthConfig" where
  "DeepCopy c =
     \<lparr>Authentication =
        (case Authentication c of
           None \<Rightarrow> Some \<lparr>X509 = None, Header = None\<rparr>
         | Some authn \<Rightarrow>
             Some \<lparr>X509 = copyX509 (X509 authn), Header = copyHeader (Header authn)\<rparr>),
      Authorization =
        (case Authorization c of
           None \<Rightarrow> None
         | Some authz \<Rightarrow>
             (case AuthzConfig.ResourceAttributes authz of
                None \<Rightarrow> None
              | Some ra \<Rightarrow>
                  Some \<lparr>Rewrites = None,
                        ResourceAttributes =
                          Some \<lparr>ResourceAttributes.Namespace = ResourceAttributes.Namespace ra,
                                ResourceAttributes.APIGroup = ResourceAttributes.APIGroup ra,
                                ResourceAttributes.APIVersion = ResourceAttributes.APIVersion ra,
                                ResourceAttributes.Resource = ResourceAttributes.Resource ra,
                                ResourceAttributes.Subresource = ResourceAttributes.Subresource ra,
                                ResourceAttributes.Name = ResourceAttributes.Name ra\<rparr>\<rparr>))\<rparr>"

section \<open>Collaborators outside the repository\<close>

text \<open>
  Go's \<open>error\<close> values are kept by their message; \<open>None\<close> is the nil error. The
  run-time panics of the model are the dereferences of a nil pointer.
\<close>

type_synonym error = string

datatype panic = NilPointerDereference

text \<open>\<open>user.Info\<close> of k8s.io/apiserver, by the four getters of the interface.\<close>

record user_Info =
  GetName :: string
  GetUID :: string
  GetGroups :: "string list"
  GetExtra :: "(string \<times> string list) list"

text \<open>\<open>authorizer.Decision\<close> and \<open>authorizer.AttributesRecord\<close> of k8s.io/apiserver.\<close>

datatype Decision = DecisionDeny | DecisionAllow | DecisionNoOpinion

record AttributesRecord =
  User :: user_Info
  Verb :: string
  Namespace :: string
  APIGroup :: string
  APIVersion :: string
  Resource :: string
  Subresource :: string
  Name :: string
  ResourceRequest :: bool
  Path :: string

text \<open>
  The part of \<open>http.Request\<close> the code reads or writes: the method, \<open>URL.Path\<close>, the
  value of \<open>URL.Query()\<close> (a \<open>map[string][]string\<close>) and the header collection
  (\<open>http.Header\<close>, again a \<open>map[string][]string\<close>).
\<close>

record Request =
  Method :: string
  URL_Path :: string
  URL_Query :: "string \<rightharpoonup> string list"
  Header :: "string \<rightharpoonup> string list"

text \<open>
  The functions of Go's standard library that auth.go calls and whose code is not part of
  the repository are parameters of the model:
  \<^item> \<open>template_Parse s\<close> is the \<open>*Template\<close> that \<open>template.New("valueTemplate").Parse(s)\<close>
    returns, \<open>None\<close> for the nil pointer it returns together with a parse error;
  \<^item> \<open>template_Execute t v\<close> is what \<open>t.Execute\<close> has written to the buffer for the data
    \<open>struct{ Value string }{Value: v}\<close> when it returns, with or without an error;
  \<^item> \<open>CanonicalMIMEHeaderKey\<close> is the key under which \<open>http.Header\<close> stores a field.
\<close>

record 't golib =
  template_Parse :: "string \<Rightarrow> 't option"
  template_Execute :: "'t \<Rightarrow> string \<Rightarrow> string"
  CanonicalMIMEHeaderKey :: "string \<Rightarrow> string"

text \<open>\<open>http.Header.Set\<close>, \<open>http.Header.Get\<close> and \<open>strings.Join\<close>.\<close>

definition Header_Set ::
  "'t golib \<Rightarrow> (string \<rightharpoonup> string list) \<Rightarrow> string \<Rightarrow> string \<Rightarrow> (string \<rightharpoonup> string list)" where
  "Header_Set L hdr key v = hdr(CanonicalMIMEHeaderKey L key \<mapsto> [v])"

definition Header_Get :: "'t golib \<Rightarrow> (string \<rightharpoonup> string list) \<Rightarrow> string \<Rightarrow> string" where
  "Header_Get L hdr key =
     (case hdr (CanonicalMIMEHeaderKey L key) of
        None \<Rightarrow> ''''
      | Some [] \<Rightarrow> ''''
      | Some (v # _) \<Rightarrow> v)"

fun strings_Join :: "string list \<Rightarrow> string \<Rightarrow> string" where
  "strings_Join [] sep = ''''"
| "strings_Join [a] sep = a"
| "strings_Join (a # b # rest) sep = a @ sep @ strings_Join (b # rest) sep"

section \<open>The gate (auth.go, lines 132-146 and 203-209)\<close>

record krpAuthorizerAttributesGetter =
  authzConfig :: "AuthzConfig option"

text \<open>
  \<open>kubeRBACProxyAuth\<close> embeds the authenticator and the authorizer, so their methods are
  fields here. The authenticator is read as a function of the request; what it may do to
  the request itself is outside the gate, and the identity it returns is read only when it
  reports success. \<open>Config\<close> and \<open>authorizerAttributesGetter\<close> are the pointers the
  constructor stores: non-nil, since \<open>newKubeRBACProxyAuth\<close> reads
  \<open>authConfig.Authorization\<close> and allocates the getter. The getter's \<open>authzConfig\<close> is that
  \<open>Authorization\<close> pointer, nil or not.
\<close>

record kubeRBACProxyAuth =
  AuthenticateRequest :: "Request \<Rightarrow> user_Info \<times> bool \<times> error option"
  Authorize :: "AttributesRecord \<Rightarrow> Decision \<times> string \<times> error option"
  authorizerAttributesGetter :: krpAuthorizerAttributesGetter
  Config :: AuthConfig

definition newKubeRBACProxyAuthorizerAttributesGetter ::
  "AuthzConfig option \<Rightarrow> krpAuthorizerAttributesGetter" where
  "newKubeRBACProxyAuthorizerAttributesGetter authzCfg = \<lparr>authzConfig = authzCfg\<rparr>"

definition newKubeRBACProxyAuth ::
  "(Request \<Rightarrow> user_Info \<times> bool \<times> error option) \<Rightarrow>
   (AttributesRecord \<Rightarrow> Decision \<times> string \<times> error option) \<Rightarrow> AuthConfig \<Rightarrow> kubeRBACProxyAuth" where
  "newKubeRBACProxyAuth authenticator authorizer authConfig =
     \<lparr>AuthenticateRequest = authenticator,
      Authorize = authorizer,
      authorizerAttributesGetter =
        newKubeRBACProxyAuthorizerAttributesGetter (Authorization authConfig),
      Config = authConfig\<rparr>"

section \<open>templateWithValue (auth.go, lines 345-351)\<close>

text \<open>
  The error of \<open>Parse\<close> is discarded and \<open>Execute\<close> is called on the pointer \<open>Parse\<close>
  returned. On a nil \<open>*Template\<close> \<open>Execute\<close> reads the field \<open>t.Tree\<close>: a run-time
  error, which text/template does not recover. The error \<open>Execute\<close> returns is discarded
  too, and the buffer's content is the result.
\<close>

definition templateWithValue :: "'t golib \<Rightarrow> string \<Rightarrow> string \<Rightarrow> panic + string" where
  "templateWithValue L templateString v =
     (case template_Parse L templateString of
        None \<Rightarrow> Inl NilPointerDereference
      | Some tmpl \<Rightarrow> Inr (template_Execute L tmpl v))"

section \<open>GetRequestAttributes (auth.go, lines 211-287)\<close>

definition apiVerbOf :: "string \<Rightarrow> string" where
  "apiVerbOf method =
     (if method = ''POST'' then ''create''
      else if method = ''GET'' then ''get''
      else if method = ''PUT'' then ''update''
      else if method = ''PATCH'' then ''patch''
      else if method = ''DELETE'' then ''delete''
      else '''')"

text \<open>
  The condition of line 230: the name of the rewrite's query parameter when \<open>Rewrites\<close> and
  \<open>ByQueryParameter\<close> are non-nil and the name is not empty.
\<close>

definition rewriteName :: "AuthzConfig \<Rightarrow> string option" where
  "rewriteName cfg =
     (case Rewrites cfg of
        None \<Rightarrow> None
      | Some rw \<Rightarrow>
          (case ByQueryParameter rw of
             None \<Rightarrow> None
           | Some q \<Rightarrow>
               if QueryParameterRewriteConfig.Name q \<noteq> '''' then
                 Some (QueryParameterRewriteConfig.Name q)
               else None))"

text \<open>The record literal of lines 237-247: six calls of \<open>templateWithValue\<close>, in order.\<close>

definition templatedAttrs ::
  "'t golib \<Rightarrow> ResourceAttributes \<Rightarrow> user_Info \<Rightarrow> string \<Rightarrow> string \<Rightarrow> panic + AttributesRecord" where
  "templatedAttrs L ra u apiVerb param =
     (case templateWithValue L (ResourceAttributes.Namespace ra) param of
        Inl p \<Rightarrow> Inl p
      | Inr ns \<Rightarrow>
     (case templateWithValue L (ResourceAttributes.APIGroup ra) param of
        Inl p \<Rightarrow> Inl p
      | Inr grp \<Rightarrow>
     (case templateWithValue L (ResourceAttributes.APIVersion ra) param of
        Inl p \<Rightarrow> Inl p
      | Inr ver \<Rightarrow>
     (case templateWithValue L (ResourceAttributes.Resource ra) param of
        Inl p \<Rightarrow> Inl p
      | Inr res \<Rightarrow>
     (case templateWithValue L (ResourceAttributes.Subresource ra) param of
        Inl p \<Rightarrow> Inl p
      | Inr sub \<Rightarrow>
     (case templateWithValue L (ResourceAttributes.Name ra) param of
        Inl p \<Rightarrow> Inl p
      | Inr nm \<Rightarrow>
          Inr \<lparr>User = u,
               Verb = apiVerb,
               AttributesRecord.Namespace = ns,
               AttributesRecord.APIGroup = grp,
               AttributesRecord.APIVersion = ver,
               AttributesRecord.Resource = res,
               AttributesRecord.Subresource = sub,
               AttributesRecord.Name = nm,
               ResourceRequest = True,
               Path = ''''\<rparr>))))))"

text \<open>The loop of lines 236-249 over the parameter's values, appending to \<open>allAttrs\<close>.\<close>

fun rangeParams ::
  "'t golib \<Rightarrow> ResourceAttributes \<Rightarrow> user_Info \<Rightarrow> string \<Rightarrow> string list \<Rightarrow>
   AttributesRecord list \<Rightarrow> panic + AttributesRecord list" where
  "rangeParams L ra u apiVerb [] allAttrs = Inr allAttrs"
| "rangeParams L ra u apiVerb (param # params) allAttrs =
     (case templatedAttrs L ra u apiVerb param of
        Inl p \<Rightarrow> Inl p
      | Inr attrs \<Rightarrow> rangeParams L ra u apiVerb params (allAttrs @ [attrs]))"

text \<open>The record literals of lines 251-261 and 267-278.\<close>

definition literalAttrs :: "ResourceAttributes \<Rightarrow> user_Info \<Rightarrow> string \<Rightarrow> AttributesRecord" where
  "literalAttrs ra u apiVerb =
     \<lparr>User = u,
      Verb = apiVerb,
      AttributesRecord.Namespace = ResourceAttributes.Namespace ra,
      AttributesRecord.APIGroup = ResourceAttributes.APIGroup ra,
      AttributesRecord.APIVersion = ResourceAttributes.APIVersion ra,
      AttributesRecord.Resource = ResourceAttributes.Resource ra,
      AttributesRecord.Subresource = ResourceAttributes.Subresource ra,
      AttributesRecord.Name = ResourceAttributes.Name ra,
      ResourceRequest = True,
      Path = ''''\<rparr>"

definition pathAttrs :: "user_Info \<Rightarrow> string \<Rightarrow> string \<Rightarrow> AttributesRecord" where
  "pathAttrs u apiVerb requestPath =
     \<lparr>User = u,
      Verb = apiVerb,
      AttributesRecord.Namespace = '''',
      AttributesRecord.APIGroup = '''',
      AttributesRecord.APIVersion = '''',
      AttributesRecord.Resource = '''',
      AttributesRecord.Subresource = '''',
      AttributesRecord.Name = '''',
      ResourceRequest = False,
      Path = requestPath\<rparr>"

text \<open>
  The receiver's \<open>authzConfig\<close> is a pointer and line 229 reads through it. The nil slice
  returned at line 233 and the empty slice are both the empty list.
\<close>

definition GetRequestAttributes ::
  "'t golib \<Rightarrow> krpAuthorizerAttributesGetter \<Rightarrow> user_Info \<Rightarrow> Request \<Rightarrow>
   panic + AttributesRecord list" where
  "GetRequestAttributes L n u r =
     (let apiVerb = apiVerbOf (Method r) in
      case authzConfig n of
        None \<Rightarrow> Inl NilPointerDereference
      | Some cfg \<Rightarrow>
          (case AuthzConfig.ResourceAttributes cfg of
             Some ra \<Rightarrow>
               (case rewriteName cfg of
                  Some name \<Rightarrow>
                    (case URL_Query r name of
                       None \<Rightarrow> Inr []
                     | Some params \<Rightarrow> rangeParams L ra u apiVerb params [])
                | None \<Rightarrow> Inr [literalAttrs ra u apiVerb])
           | None \<Rightarrow> Inr [pathAttrs u apiVerb (URL_Path r)]))"

section \<open>Handle (auth.go, lines 293-343)\<close>

text \<open>
  What one call of \<open>Handle\<close> leaves behind: whether it returned (and what) or panicked, the
  call of \<open>http.Error\<close> on the response writer if there was one (message and status code),
  the request as it is afterwards, and the calls made to the authenticator, the attribute
  getter and the authorizer, in order.
\<close>

datatype call = CallAuthenticateRequest | CallGetRequestAttributes | CallAuthorize AttributesRecord

record HandleResult =
  returned :: "panic + bool"
  response :: "(string \<times> nat) option"
  request :: Request
  calls :: "call list"

abbreviation StatusBadRequest :: nat where "StatusBadRequest \<equiv> 400"

abbreviation StatusUnauthorized :: nat where "StatusUnauthorized \<equiv> 401"

abbreviation StatusForbidden :: nat where "StatusForbidden \<equiv> 403"

abbreviation StatusInternalServerError :: nat where "StatusInternalServerError \<equiv> 500"

text \<open>The two \<open>fmt.Sprintf\<close> messages of lines 321 and 327, which differ in their first words.\<close>

definition authzMessage :: "string \<Rightarrow> user_Info \<Rightarrow> AttributesRecord \<Rightarrow> string" where
  "authzMessage what u attrs =
     what @ '' (user='' @ GetName u @ '', verb='' @ Verb attrs
       @ '', resource='' @ AttributesRecord.Resource attrs
       @ '', subresource='' @ AttributesRecord.Subresource attrs @ '')''"

text \<open>The body of the loop of lines 317-332: the rejection written for one query, if any.\<close>

definition authorizeOne ::
  "kubeRBACProxyAuth \<Rightarrow> user_Info \<Rightarrow> AttributesRecord \<Rightarrow> (string \<times> nat) option" where
  "authorizeOne h u attrs =
     (case Authorize h attrs of
        (authorized, reason, err) \<Rightarrow>
          if err \<noteq> None then
            Some (authzMessage ''Authorization error'' u attrs, StatusInternalServerError)
          else if authorized \<noteq> DecisionAllow then
            Some (authzMessage ''Forbidden'' u attrs, StatusForbidden)
          else None)"

text \<open>
  The loop itself: the rejection that ended it, if any, and the queries \<open>Authorize\<close> was
  called with, in order.
\<close>

fun authorizeAll ::
  "kubeRBACProxyAuth \<Rightarrow> user_Info \<Rightarrow> AttributesRecord list \<Rightarrow>
   (string \<times> nat) option \<times> AttributesRecord list" where
  "authorizeAll h u [] = (None, [])"
| "authorizeAll h u (attrs # rest) =
     (case authorizeOne h u attrs of
        Some rejection \<Rightarrow> (Some rejection, [attrs])
      | None \<Rightarrow>
          (case authorizeAll h u rest of
             (rejection, evaluated) \<Rightarrow> (rejection, attrs # evaluated)))"

text \<open>Lines 334-340, once every query is allowed.\<close>

definition injectHeaders ::
  "'t golib \<Rightarrow> AuthnHeaderConfig \<Rightarrow> user_Info \<Rightarrow> Request \<Rightarrow> Request" where
  "injectHeaders L headerCfg u req =
     req\<lparr>Header :=
       Header_Set L
         (Header_Set L (Request.Header req) (UserFieldName headerCfg) (GetName u))
         (GroupsFieldName headerCfg)
         (strings_Join (GetGroups u) (GroupSeparator headerCfg))\<rparr>"

definition Handle :: "'t golib \<Rightarrow> kubeRBACProxyAuth \<Rightarrow> Request \<Rightarrow> HandleResult" where
  "Handle L h req =
     (case AuthenticateRequest h req of
        (u, ok, err) \<Rightarrow>
          if err \<noteq> None then
            \<lparr>returned = Inr False, response = Some (''Unauthorized'', StatusUnauthorized),
             request = req, calls = [CallAuthenticateRequest]\<rparr>
          else if \<not> ok then
            \<lparr>returned = Inr False, response = Some (''Unauthorized'', StatusUnauthorized),
             request = req, calls = [CallAuthenticateRequest]\<rparr>
          else
            (case GetRequestAttributes L (authorizerAttributesGetter h) u req of
               Inl p \<Rightarrow>
                 \<lparr>returned = Inl p, response = None, request = req,
                  calls = [CallAuthenticateRequest, CallGetRequestAttributes]\<rparr>
             | Inr allAttrs \<Rightarrow>
                 if length allAttrs = 0 then
                   \<lparr>returned = Inr False,
                    response =
                      Some (''Bad Request. The request or configuration is malformed.'',
                            StatusBadRequest),
                    request = req,
                    calls = [CallAuthenticateRequest, CallGetRequestAttributes]\<rparr>
                 else
                   (case authorizeAll h u allAttrs of
                      (Some rejection, evaluated) \<Rightarrow>
                        \<lparr>returned = Inr False, response = Some rejection, request = req,
                         calls = [CallAuthenticateRequest, CallGetRequestAttributes]
                                 @ map CallAuthorize evaluated\<rparr>
                    | (None, evaluated) \<Rightarrow>
                        (case Authentication (Config h) of
                           None \<Rightarrow>
                             \<lparr>returned = Inl NilPointerDereference, response = None,
                              request = req,
                              calls = [CallAuthenticateRequest, CallGetRequestAttributes]
                                      @ map CallAuthorize evaluated\<rparr>
                         | Some authn \<Rightarrow>
                             (case AuthnConfig.Header authn of
                                None \<Rightarrow>
                                  \<lparr>returned = Inl NilPointerDereference, response = None,
                                   request = req,
                                   calls = [CallAuthenticateRequest, CallGetRequestAttributes]
                                           @ map CallAuthorize evaluated\<rparr>
                              | Some headerCfg \<Rightarrow>
                                  \<lparr>returned = Inr True, response = None,
                                   request =
                                     (if Enabled headerCfg then injectHeaders L headerCfg u req
                                      else req),
                                   calls = [CallAuthenticateRequest, CallGetRequestAttributes]
                                           @ map CallAuthorize evaluated\<rparr>)))))"

section \<open>Instances of the collaborators, for evaluating the model\<close>

subsection \<open>A fragment of text/template\<close>

text \<open>
  Templates made of literal text and of the action \<open>{{.Value}}\<close>, written exactly so. On
  these \<open>parseNodes\<close> and \<open>executeNodes\<close> are what text/template does: text is copied, the
  action prints the field \<open>Value\<close> of the data. A left delimiter that is not followed by
  \<open>.Value}}\<close> is reported as a parse error. That is what the library does for an action
  that is never closed, such as the template \<open>{{\<close>; for any other action (blanks inside the
  delimiters, another field, a pipeline) \<open>parseNodes\<close> is not the library's \<open>Parse\<close>,
  which may well return a template there. The instance is applied below only to literal
  text, to \<open>{{.Value}}\<close> and to \<open>{{\<close>; the general statements hold for every library.
\<close>

datatype node = TextNode string | FieldValue

fun addText :: "char \<Rightarrow> node list \<Rightarrow> node list" where
  "addText c (TextNode s # ns) = TextNode (c # s) # ns"
| "addText c ns = TextNode [c] # ns"

fun parseNodes :: "string \<Rightarrow> node list option" where
  "parseNodes [] = Some []"
| "parseNodes (c # cs) =
     (if take 2 (c # cs) = ''{{'' then
        (if take 9 cs = ''{.Value}}'' then map_option (Cons FieldValue) (parseNodes (drop 9 cs))
         else None)
      else map_option (addText c) (parseNodes cs))"

fun executeNodes :: "node list \<Rightarrow> string \<Rightarrow> string" where
  "executeNodes [] v = ''''"
| "executeNodes (TextNode s # ns) v = s @ executeNodes ns v"
| "executeNodes (FieldValue # ns) v = v @ executeNodes ns v"

subsection \<open>Canonical header keys\<close>

text \<open>
  \<open>textproto.CanonicalMIMEHeaderKey\<close> as its documentation gives it: the first letter and
  every letter after a hyphen in upper case, the other letters in lower case; a key with a
  byte that no header field name may hold is returned as it is.
\<close>

definition lowerLetters :: string where
  "lowerLetters = ''abcdefghijklmnopqrstuvwxyz''"

definition upperLetters :: string where
  "upperLetters = ''ABCDEFGHIJKLMNOPQRSTUVWXYZ''"

definition validHeaderFieldByte :: "char \<Rightarrow> bool" where
  "validHeaderFieldByte c =
     (c \<in> set (lowerLetters @ upperLetters @ ''0123456789'' @ ''!#$%&*+-.^_`|~'' @ [CHR 0x27]))"

definition toUpper :: "char \<Rightarrow> char" where
  "toUpper c = (case map_of (zip lowerLetters upperLetters) c of None \<Rightarrow> c | Some C \<Rightarrow> C)"

definition toLower :: "char \<Rightarrow> char" where
  "toLower c = (case map_of (zip upperLetters lowerLetters) c of None \<Rightarrow> c | Some C \<Rightarrow> C)"

fun canonicalBytes :: "bool \<Rightarrow> string \<Rightarrow> string" where
  "canonicalBytes upper [] = []"
| "canonicalBytes upper (c # cs) =
     (if upper then toUpper c else toLower c) # canonicalBytes (c = CHR ''-'') cs"

definition canonicalKey :: "string \<Rightarrow> string" where
  "canonicalKey s = (if list_all validHeaderFieldByte s then canonicalBytes True s else s)"

definition fragmentLib :: "node list golib" where
  "fragmentLib =
     \<lparr>template_Parse = parseNodes,
      template_Execute = executeNodes,
      CanonicalMIMEHeaderKey = canonicalKey\<rparr>"

subsection \<open>An authenticator, an authorizer, configurations and requests\<close>

definition alice :: user_Info where
  "alice = \<lparr>GetName = ''alice'', GetUID = ''1000'', GetGroups = [''dev'', ''ops''], GetExtra = []\<rparr>"

definition anonymous :: user_Info where
  "anonymous = \<lparr>GetName = '''', GetUID = '''', GetGroups = [], GetExtra = []\<rparr>"

text \<open>
  The authenticator knows one token; the review of the token \<open>expired\<close> fails with an
  error, any other request is not authenticated.
\<close>

definition tokenAuthenticator :: "Request \<Rightarrow> user_Info \<times> bool \<times> error option" where
  "tokenAuthenticator req =
     (let auth = Request.Header req ''Authorization'' in
      if auth = Some [''Bearer alice''] then (alice, True, None)
      else if auth = Some [''Bearer expired''] then (anonymous, False, Some ''token review failed'')
      else (anonymous, False, None))"

text \<open>
  The authorizer allows the namespace \<open>default\<close> and the path \<open>/metrics\<close>, denies the
  namespace \<open>kube-system\<close>, fails on the namespace \<open>unreachable\<close> and has no opinion
  otherwise.
\<close>

definition namespaceAuthorizer :: "AttributesRecord \<Rightarrow> Decision \<times> string \<times> error option" where
  "namespaceAuthorizer a =
     (if ResourceRequest a then
        (if AttributesRecord.Namespace a = ''default'' then (DecisionAllow, '''', None)
         else if AttributesRecord.Namespace a = ''kube-system'' then
           (DecisionDeny, ''protected namespace'', None)
         else if AttributesRecord.Namespace a = ''unreachable'' then
           (DecisionNoOpinion, '''', Some ''webhook unreachable'')
         else (DecisionNoOpinion, '''', None))
      else if Path a = ''/metrics'' then (DecisionAllow, '''', None)
      else (DecisionNoOpinion, '''', None))"

definition headerConfig :: AuthnConfig where
  "headerConfig =
     \<lparr>X509 = Some \<lparr>ClientCAFile = ''/etc/ca.crt''\<rparr>,
      Header = Some \<lparr>Enabled = True,
                     UserFieldName = ''x-remote-user'',
                     GroupsFieldName = ''x-remote-groups'',
                     GroupSeparator = ''|''\<rparr>\<rparr>"

text \<open>A header policy whose two field names are one header key.\<close>

definition collidingHeaders :: AuthnConfig where
  "collidingHeaders =
     \<lparr>X509 = Some \<lparr>ClientCAFile = ''/etc/ca.crt''\<rparr>,
      Header = Some \<lparr>Enabled = True,
                     UserFieldName = ''x-id'',
                     GroupsFieldName = ''X-ID'',
                     GroupSeparator = ''|''\<rparr>\<rparr>"

definition podsIn :: "string \<Rightarrow> ResourceAttributes" where
  "podsIn ns =
     \<lparr>ResourceAttributes.Namespace = ns,
      ResourceAttributes.APIGroup = '''',
      ResourceAttributes.APIVersion = ''v1'',
      ResourceAttributes.Resource = ''pods'',
      ResourceAttributes.Subresource = '''',
      ResourceAttributes.Name = ''''\<rparr>"

definition namespaceRewrite :: SubjectAccessReviewRewrites where
  "namespaceRewrite =
     \<lparr>ByQueryParameter = Some \<lparr>QueryParameterRewriteConfig.Name = ''namespace''\<rparr>\<rparr>"

text \<open>The configuration of \<open>templatedGate ''{{.Value}}''\<close>.\<close>

definition rewriteConfig :: AuthConfig where
  "rewriteConfig =
     \<lparr>Authentication = Some headerConfig,
      Authorization =
        Some \<lparr>Rewrites = Some namespaceRewrite,
              ResourceAttributes = Some (podsIn ''{{.Value}}'')\<rparr>\<rparr>"

text \<open>
  A gate for each shape of the authorization block: the namespace taken from the query
  parameter \<open>namespace\<close> through a template, a literal namespace and no rewrite, and no
  resource attributes at all (with a rewrite block all the same).
\<close>

definition templatedGate :: "string \<Rightarrow> kubeRBACProxyAuth" where
  "templatedGate namespaceTemplate =
     newKubeRBACProxyAuth tokenAuthenticator namespaceAuthorizer
       \<lparr>Authentication = Some headerConfig,
        Authorization =
          Some \<lparr>Rewrites = Some namespaceRewrite,
                ResourceAttributes = Some (podsIn namespaceTemplate)\<rparr>\<rparr>"

definition literalGate :: "AuthnConfig option \<Rightarrow> kubeRBACProxyAuth" where
  "literalGate authn =
     newKubeRBACProxyAuth tokenAuthenticator namespaceAuthorizer
       \<lparr>Authentication = authn,
        Authorization =
          Some \<lparr>Rewrites = None, ResourceAttributes = Some (podsIn ''default'')\<rparr>\<rparr>"

definition pathGate :: kubeRBACProxyAuth where
  "pathGate =
     newKubeRBACProxyAuth tokenAuthenticator namespaceAuthorizer
       \<lparr>Authentication = Some headerConfig,
        Authorization = Some \<lparr>Rewrites = Some namespaceRewrite, ResourceAttributes = None\<rparr>\<rparr>"

text \<open>
  A request for \<open>/metrics\<close> with the given method, parsed query string and bearer token.
\<close>

definition metricsRequest :: "string \<Rightarrow> (string \<rightharpoonup> string list) \<Rightarrow> string \<Rightarrow> Request" where
  "metricsRequest method query token =
     \<lparr>Method = method,
      URL_Path = ''/metrics'',
      URL_Query = query,
      Header = [''Authorization'' \<mapsto> [''Bearer '' @ token]]\<rparr>"

section \<open>Unfolding the instances\<close>

lemmas gate_defs =
  templatedGate_def literalGate_def pathGate_def newKubeRBACProxyAuth_def
  newKubeRBACProxyAuthorizerAttributesGetter_def headerConfig_def namespaceRewrite_def podsIn_def

lemmas double_defs =
  tokenAuthenticator_def namespaceAuthorizer_def metricsRequest_def alice_def anonymous_def

lemmas lib_defs =
  fragmentLib_def canonicalKey_def validHeaderFieldByte_def lowerLetters_def upperLetters_def
  toUpper_def toLower_def

lemmas resolver_defs =
  GetRequestAttributes_def rewriteName_def templatedAttrs_def templateWithValue_def
  literalAttrs_def pathAttrs_def apiVerbOf_def Let_def

section \<open>The authorization loop\<close>

lemma authorizeOne_allow:
  "fst (Authorize h x) = DecisionAllow \<and> snd (snd (Authorize h x)) = None \<Longrightarrow>
   authorizeOne h u x = None"
  by (cases "Authorize h x") (simp add: authorizeOne_def)

lemma authorizeOne_status:
  "authorizeOne h u a = Some (msg, status) \<Longrightarrow>
   status = StatusForbidden \<or> status = StatusInternalServerError"
  by (cases "Authorize h a") (auto simp: authorizeOne_def split: if_splits)

lemma authorizeAll_allowed:
  "\<forall>x\<in>set as. authorizeOne h u x = None \<Longrightarrow> authorizeAll h u as = (None, as)"
  by (induction as) simp_all

lemma authorizeAll_first_rejection:
  "\<forall>x\<in>set pre. authorizeOne h u x = None \<Longrightarrow> authorizeOne h u a = Some rejection \<Longrightarrow>
   authorizeAll h u (pre @ a # post) = (Some rejection, pre @ [a])"
  by (induction pre) simp_all

lemma authorizeAll_first_call:
  "\<exists>rejection rest. authorizeAll h u (a # as) = (rejection, a # rest)"
  by (cases "authorizeOne h u a"; cases "authorizeAll h u as") auto

lemma authorizeAll_status:
  "authorizeAll h u as = (Some (msg, status), evaluated) \<Longrightarrow>
   status = StatusForbidden \<or> status = StatusInternalServerError"
proof (induction as arbitrary: evaluated)
  case Nil
  then show ?case by simp
next
  case (Cons a as)
  show ?case
  proof (cases "authorizeOne h u a")
    case None
    with Cons.prems obtain ev where "authorizeAll h u as = (Some (msg, status), ev)"
      by (auto split: prod.splits)
    then show ?thesis by (rule Cons.IH)
  next
    case (Some rejection)
    with Cons.prems have "authorizeOne h u a = Some (msg, status)" by simp
    then show ?thesis by (rule authorizeOne_status)
  qed
qed

text \<open>
  The queries \<open>Authorize\<close> is called with are always an initial segment of the derived
  sequence, in its order.
\<close>

lemma authorizeAll_evaluated_prefix:
  "\<exists>k. snd (authorizeAll h u as) = take k as"
proof (induction as)
  case Nil
  then show ?case by simp
next
  case (Cons a as)
  then obtain k where k: "snd (authorizeAll h u as) = take k as" ..
  show ?case
  proof (cases "authorizeOne h u a")
    case None
    with k have "snd (authorizeAll h u (a # as)) = take (Suc k) (a # as)"
      by (cases "authorizeAll h u as") simp
    then show ?thesis ..
  next
    case (Some rejection)
    then have "snd (authorizeAll h u (a # as)) = take (Suc 0) (a # as)" by simp
    then show ?thesis ..
  qed
qed

section \<open>The attribute getter\<close>

lemma apiVerbOf_other:
  "m \<notin> {''POST'', ''GET'', ''PUT'', ''PATCH'', ''DELETE''} \<Longrightarrow> apiVerbOf m = ''''"
  by (simp add: apiVerbOf_def)

lemma templatedAttrs_Verb:
  "templatedAttrs L ra u verb param = Inr a \<Longrightarrow> Verb a = verb"
  by (auto simp: templatedAttrs_def split: sum.splits)

lemma rangeParams_Verb:
  "rangeParams L ra u verb params acc = Inr as \<Longrightarrow> \<forall>a\<in>set acc. Verb a = verb \<Longrightarrow>
   \<forall>a\<in>set as. Verb a = verb"
proof (induction params arbitrary: acc)
  case Nil
  then show ?case by simp
next
  case (Cons param params)
  from Cons.prems(1) obtain a where a: "templatedAttrs L ra u verb param = Inr a"
    and rest: "rangeParams L ra u verb params (acc @ [a]) = Inr as"
    by (auto split: sum.splits)
  from a have "Verb a = verb" by (rule templatedAttrs_Verb)
  with Cons.prems(2) have "\<forall>x\<in>set (acc @ [a]). Verb x = verb" by simp
  with rest show ?case by (rule Cons.IH)
qed

lemma GetRequestAttributes_Verb:
  assumes "GetRequestAttributes L n u r = Inr as"
  shows "\<forall>a\<in>set as. Verb a = apiVerbOf (Method r)"
proof (cases "authzConfig n")
  case None
  with assms show ?thesis by (simp add: GetRequestAttributes_def)
next
  case (Some cfg)
  show ?thesis
  proof (cases "AuthzConfig.ResourceAttributes cfg")
    case None
    with Some assms show ?thesis
      by (auto simp: GetRequestAttributes_def pathAttrs_def)
  next
    case ra: (Some ra)
    show ?thesis
    proof (cases "rewriteName cfg")
      case None
      with Some ra assms show ?thesis
        by (auto simp: GetRequestAttributes_def literalAttrs_def)
    next
      case name: (Some name)
      show ?thesis
      proof (cases "URL_Query r name")
        case None
        with Some ra name assms show ?thesis
          by (auto simp: GetRequestAttributes_def)
      next
        case (Some params)
        with \<open>authzConfig n = Some cfg\<close> ra name assms
        have "rangeParams L ra u (apiVerbOf (Method r)) params [] = Inr as"
          by (simp add: GetRequestAttributes_def)
        then show ?thesis by (rule rangeParams_Verb) simp
      qed
    qed
  qed
qed

text \<open>
  The method of the request reaches the getter's result through the verb only: with another
  method the getter returns the same queries, or the same panic, with the other verb.
\<close>

lemma templatedAttrs_verb_update:
  "templatedAttrs L ra u verb' param =
     map_sum id (\<lambda>a. a\<lparr>Verb := verb'\<rparr>) (templatedAttrs L ra u verb param)"
  by (simp add: templatedAttrs_def split: sum.splits)

lemma rangeParams_verb_update:
  "rangeParams L ra u verb' params (map (\<lambda>a. a\<lparr>Verb := verb'\<rparr>) acc) =
     map_sum id (map (\<lambda>a. a\<lparr>Verb := verb'\<rparr>)) (rangeParams L ra u verb params acc)"
proof (induction params arbitrary: acc)
  case Nil
  then show ?case by simp
next
  case (Cons param params)
  show ?case
  proof (cases "templatedAttrs L ra u verb param")
    case (Inl p)
    then have "templatedAttrs L ra u verb' param = Inl p"
      by (simp add: templatedAttrs_verb_update [of L ra u verb' param verb])
    with Inl show ?thesis by simp
  next
    case (Inr a)
    then have "templatedAttrs L ra u verb' param = Inr (a\<lparr>Verb := verb'\<rparr>)"
      by (simp add: templatedAttrs_verb_update [of L ra u verb' param verb])
    with Inr Cons.IH [of "acc @ [a]"] show ?thesis by simp
  qed
qed

lemma GetRequestAttributes_Method:
  "GetRequestAttributes L n u (r\<lparr>Method := m\<rparr>) =
     map_sum id (map (\<lambda>a. a\<lparr>Verb := apiVerbOf m\<rparr>)) (GetRequestAttributes L n u r)"
proof -
  have loop: "rangeParams L ra u (apiVerbOf m) params [] =
      map_sum id (map (\<lambda>a. a\<lparr>Verb := apiVerbOf m\<rparr>))
        (rangeParams L ra u (apiVerbOf (Method r)) params [])" for ra params
    using rangeParams_verb_update [of L ra u "apiVerbOf m" params "[]" "apiVerbOf (Method r)"]
    by simp
  show ?thesis
    by (auto simp: GetRequestAttributes_def Let_def literalAttrs_def pathAttrs_def
        split: option.splits intro: loop)
qed

subsection \<open>The rewrite by query parameter\<close>

text \<open>
  When each of the six configured templates parses, every value of the parameter gives one
  query, in the order of the values, whose six fields are the templates executed on that
  value.
\<close>

lemma templatedAttrs_parsed:
  assumes "template_Parse L (ResourceAttributes.Namespace ra) = Some tNamespace"
    and "template_Parse L (ResourceAttributes.APIGroup ra) = Some tAPIGroup"
    and "template_Parse L (ResourceAttributes.APIVersion ra) = Some tAPIVersion"
    and "template_Parse L (ResourceAttributes.Resource ra) = Some tResource"
    and "template_Parse L (ResourceAttributes.Subresource ra) = Some tSubresource"
    and "template_Parse L (ResourceAttributes.Name ra) = Some tName"
  shows "templatedAttrs L ra u verb v =
           Inr \<lparr>User = u, Verb = verb,
                AttributesRecord.Namespace = template_Execute L tNamespace v,
                AttributesRecord.APIGroup = template_Execute L tAPIGroup v,
                AttributesRecord.APIVersion = template_Execute L tAPIVersion v,
                AttributesRecord.Resource = template_Execute L tResource v,
                AttributesRecord.Subresource = template_Execute L tSubresource v,
                AttributesRecord.Name = template_Execute L tName v,
                ResourceRequest = True, Path = ''''\<rparr>"
  using assms by (simp add: templatedAttrs_def templateWithValue_def)

lemma rangeParams_map:
  "(\<And>v. v \<in> set vs \<Longrightarrow> templatedAttrs L ra u verb v = Inr (f v)) \<Longrightarrow>
   rangeParams L ra u verb vs acc = Inr (acc @ map f vs)"
  by (induction vs arbitrary: acc) simp_all

lemma GetRequestAttributes_rewrite:
  assumes "authzConfig n = Some cfg"
    and "AuthzConfig.ResourceAttributes cfg = Some ra"
    and "rewriteName cfg = Some name"
    and "URL_Query r name = Some vs"
    and "template_Parse L (ResourceAttributes.Namespace ra) = Some tNamespace"
    and "template_Parse L (ResourceAttributes.APIGroup ra) = Some tAPIGroup"
    and "template_Parse L (ResourceAttributes.APIVersion ra) = Some tAPIVersion"
    and "template_Parse L (ResourceAttributes.Resource ra) = Some tResource"
    and "template_Parse L (ResourceAttributes.Subresource ra) = Some tSubresource"
    and "template_Parse L (ResourceAttributes.Name ra) = Some tName"
  shows "GetRequestAttributes L n u r =
           Inr (map (\<lambda>v. \<lparr>User = u, Verb = apiVerbOf (Method r),
                           AttributesRecord.Namespace = template_Execute L tNamespace v,
                           AttributesRecord.APIGroup = template_Execute L tAPIGroup v,
                           AttributesRecord.APIVersion = template_Execute L tAPIVersion v,
                           AttributesRecord.Resource = template_Execute L tResource v,
                           AttributesRecord.Subresource = template_Execute L tSubresource v,
                           AttributesRecord.Name = template_Execute L tName v,
                           ResourceRequest = True, Path = ''''\<rparr>) vs)"
proof -
  have "rangeParams L ra u (apiVerbOf (Method r)) vs [] =
      Inr ([] @ map (\<lambda>v. \<lparr>User = u, Verb = apiVerbOf (Method r),
                           AttributesRecord.Namespace = template_Execute L tNamespace v,
                           AttributesRecord.APIGroup = template_Execute L tAPIGroup v,
                           AttributesRecord.APIVersion = template_Execute L tAPIVersion v,
                           AttributesRecord.Resource = template_Execute L tResource v,
                           AttributesRecord.Subresource = template_Execute L tSubresource v,
                           AttributesRecord.Name = template_Execute L tName v,
                           ResourceRequest = True, Path = ''''\<rparr>) vs)"
    by (rule rangeParams_map) (rule templatedAttrs_parsed [OF assms(5-10)])
  with assms(1-4) show ?thesis
    by (simp add: GetRequestAttributes_def)
qed

text \<open>When the parameter is absent the getter returns nothing, and the gate answers 400.\<close>

lemma GetRequestAttributes_rewrite_absent:
  assumes "authzConfig n = Some cfg"
    and "AuthzConfig.ResourceAttributes cfg = Some ra"
    and "rewriteName cfg = Some name"
    and "URL_Query r name = None"
  shows "GetRequestAttributes L n u r = Inr []"
  using assms by (simp add: GetRequestAttributes_def)

lemma Handle_bad_request:
  assumes "AuthenticateRequest h req = (u, True, None)"
    and "GetRequestAttributes L (authorizerAttributesGetter h) u req = Inr []"
  shows "Handle L h req =
           \<lparr>returned = Inr False,
            response = Some (''Bad Request. The request or configuration is malformed.'',
                             StatusBadRequest),
            request = req,
            calls = [CallAuthenticateRequest, CallGetRequestAttributes]\<rparr>"
  using assms by (simp add: Handle_def)

text \<open>
  When one of the six templates does not parse and the parameter has a value, the getter
  does not return: the first value already runs into the nil template.
\<close>

lemma templatedAttrs_unparsed:
  assumes "template_Parse L t = None"
    and "t \<in> {ResourceAttributes.Namespace ra, ResourceAttributes.APIGroup ra,
              ResourceAttributes.APIVersion ra, ResourceAttributes.Resource ra,
              ResourceAttributes.Subresource ra, ResourceAttributes.Name ra}"
  shows "templatedAttrs L ra u verb v = Inl NilPointerDereference"
proof -
  have "templatedAttrs L ra u verb v \<noteq> Inr a" for a
    using assms by (auto simp: templatedAttrs_def templateWithValue_def split: option.splits)
  then show ?thesis
    by (cases "templatedAttrs L ra u verb v") (auto intro: panic.exhaust)
qed

lemma GetRequestAttributes_rewrite_unparsed:
  assumes "authzConfig n = Some cfg"
    and "AuthzConfig.ResourceAttributes cfg = Some ra"
    and "rewriteName cfg = Some name"
    and "URL_Query r name = Some (v # vs)"
    and "template_Parse L t = None"
    and "t \<in> {ResourceAttributes.Namespace ra, ResourceAttributes.APIGroup ra,
              ResourceAttributes.APIVersion ra, ResourceAttributes.Resource ra,
              ResourceAttributes.Subresource ra, ResourceAttributes.Name ra}"
  shows "GetRequestAttributes L n u r = Inl NilPointerDereference"
  using assms(1-4) templatedAttrs_unparsed [OF assms(5,6)]
  by (simp add: GetRequestAttributes_def)

section \<open>The header collection\<close>

lemma Header_Get_Set:
  "Header_Get L (Header_Set L hdr key v) key = v"
  by (simp add: Header_Get_def Header_Set_def)

lemma Header_Get_Set_other:
  "CanonicalMIMEHeaderKey L key \<noteq> CanonicalMIMEHeaderKey L key' \<Longrightarrow>
   Header_Get L (Header_Set L hdr key' v) key = Header_Get L hdr key"
  by (simp add: Header_Get_def Header_Set_def)

text \<open>
  After the two calls of lines 338-339 the groups header holds the joined groups; the user
  header holds the user's name when the two configured names are different header keys
  (with one key for both, the second call replaces what the first one stored).
\<close>

lemma injectHeaders_groups:
  "Header_Get L (Request.Header (injectHeaders L headerCfg u req)) (GroupsFieldName headerCfg) =
     strings_Join (GetGroups u) (GroupSeparator headerCfg)"
  by (simp add: injectHeaders_def Header_Get_Set)

lemma injectHeaders_user:
  "CanonicalMIMEHeaderKey L (UserFieldName headerCfg)
     \<noteq> CanonicalMIMEHeaderKey L (GroupsFieldName headerCfg) \<Longrightarrow>
   Header_Get L (Request.Header (injectHeaders L headerCfg u req)) (UserFieldName headerCfg) =
     GetName u"
  by (simp add: injectHeaders_def Header_Get_Set Header_Get_Set_other)

lemma injectHeaders_user_replaced:
  "CanonicalMIMEHeaderKey L (UserFieldName headerCfg)
     = CanonicalMIMEHeaderKey L (GroupsFieldName headerCfg) \<Longrightarrow>
   Header_Get L (Request.Header (injectHeaders L headerCfg u req)) (UserFieldName headerCfg) =
     strings_Join (GetGroups u) (GroupSeparator headerCfg)"
  by (simp add: injectHeaders_def Header_Get_def Header_Set_def)

lemma strings_Join_example:
  "strings_Join [''a'', ''b''] ''|'' = ''a|b''"
  by simp

lemma Handle_reaches_Authorize:
  assumes "AuthenticateRequest h req = (u, True, None)"
    and "GetRequestAttributes L (authorizerAttributesGetter h) u req = Inr (a # as)"
  shows "take 3 (calls (Handle L h req)) =
           [CallAuthenticateRequest, CallGetRequestAttributes, CallAuthorize a]"
proof -
  obtain rejection rest where "authorizeAll h u (a # as) = (rejection, a # rest)"
    using authorizeAll_first_call by blast
  with assms show ?thesis
    by (cases rejection) (auto simp: Handle_def split: option.splits)
qed

lemma Handle_resolves:
  "AuthenticateRequest h req = (u, True, None) \<Longrightarrow>
   take 2 (calls (Handle L h req)) = [CallAuthenticateRequest, CallGetRequestAttributes]"
  by (auto simp: Handle_def split: sum.splits prod.splits option.splits)

lemma Handle_rejects_first:
  assumes "AuthenticateRequest h req = (u, True, None)"
    and "GetRequestAttributes L (authorizerAttributesGetter h) u req = Inr (a # rest)"
    and "authorizeOne h u a = Some rejection"
  shows "Handle L h req =
           \<lparr>returned = Inr False, response = Some rejection, request = req,
            calls = [CallAuthenticateRequest, CallGetRequestAttributes, CallAuthorize a]\<rparr>"
  using assms by (simp add: Handle_def)

lemma Handle_all_allowed:
  assumes "AuthenticateRequest h req = (u, True, None)"
    and "GetRequestAttributes L (authorizerAttributesGetter h) u req = Inr (a # rest)"
    and "\<forall>x\<in>set (a # rest). authorizeOne h u x = None"
  shows "returned (Handle L h req) =
           (case Authentication (Config h) of
              None \<Rightarrow> Inl NilPointerDereference
            | Some authn \<Rightarrow>
                (case AuthnConfig.Header authn of
                   None \<Rightarrow> Inl NilPointerDereference
                 | Some headerCfg \<Rightarrow> Inr True))
         \<and> response (Handle L h req) = None
         \<and> calls (Handle L h req) =
             [CallAuthenticateRequest, CallGetRequestAttributes] @ map CallAuthorize (a # rest)"
proof -
  from assms(3) have "authorizeAll h u (a # rest) = (None, a # rest)"
    by (rule authorizeAll_allowed)
  with assms(1,2) show ?thesis
    by (simp add: Handle_def split: option.splits)
qed

text \<open>What a call of \<open>Handle\<close> leaves of the request, by its result.\<close>

lemma Handle_request_after:
  "(returned (Handle L h req) \<noteq> Inr True \<longrightarrow> request (Handle L h req) = req)
    \<and> (\<forall>msg status. response (Handle L h req) = Some (msg, status) \<longrightarrow>
          returned (Handle L h req) = Inr False
          \<and> status \<in> {StatusUnauthorized, StatusBadRequest, StatusForbidden,
                       StatusInternalServerError})
    \<and> (returned (Handle L h req) = Inr True \<longrightarrow>
          (\<exists>authn headerCfg.
             Authentication (Config h) = Some authn \<and> AuthnConfig.Header authn = Some headerCfg
             \<and> request (Handle L h req) =
                 (if Enabled headerCfg
                  then injectHeaders L headerCfg (fst (AuthenticateRequest h req)) req
                  else req)))"
proof -
  obtain u' ok err where authn: "AuthenticateRequest h req = (u', ok, err)"
    by (cases "AuthenticateRequest h req") auto
  then have u: "fst (AuthenticateRequest h req) = u'" by simp
  show ?thesis
  proof (cases "err \<noteq> None \<or> \<not> ok")
    case True
    with authn show ?thesis by (auto simp: Handle_def)
  next
    case False
    then have ok: "err = None" "ok" by auto
    show ?thesis
    proof (cases "GetRequestAttributes L (authorizerAttributesGetter h) u' req")
      case (Inl p)
      with authn ok show ?thesis by (simp add: Handle_def)
    next
      case (Inr allAttrs)
      show ?thesis
      proof (cases "allAttrs = []")
        case True
        with authn ok Inr show ?thesis by (simp add: Handle_def)
      next
        case False
        obtain rejection evaluated where loop: "authorizeAll h u' allAttrs = (rejection, evaluated)"
          by (cases "authorizeAll h u' allAttrs") auto
        show ?thesis
        proof (cases rejection)
          case (Some r)
          obtain msg status where r: "r = (msg, status)" by (cases r) auto
          with loop Some have "status = StatusForbidden \<or> status = StatusInternalServerError"
            by (auto dest: authorizeAll_status)
          with authn ok Inr False loop Some r show ?thesis
            by (auto simp: Handle_def)
        next
          case None
          with authn ok Inr False loop u show ?thesis
            by (auto simp: Handle_def split: option.splits)
        qed
      qed
    qed
  qed
qed

section \<open>The claims\<close>

subsection \<open>Short-circuit evaluation of the queries\<close>

text \<open>
  C1. Let the authenticated request's derived sequence be \<open>pre @ a # post\<close>, where every
  query of \<open>pre\<close> is allowed without error and \<open>a\<close> is the first one that is not. Then
  \<open>Handle\<close> returns false; it answers 500 when the authorizer returned an error for \<open>a\<close>
  and 403 when it returned no error and a decision other than allow; and the authorizer
  has been called with the queries of \<open>pre\<close> and then with \<open>a\<close>, in the sequence's order,
  and with none of \<open>post\<close>.
\<close>

theorem Handle_first_rejection:
  assumes authn: "AuthenticateRequest h req = (u, True, None)"
    and attrs: "GetRequestAttributes L (authorizerAttributesGetter h) u req = Inr (pre @ a # post)"
    and pre: "\<forall>x\<in>set pre. fst (Authorize h x) = DecisionAllow \<and> snd (snd (Authorize h x)) = None"
    and a: "Authorize h a = (d, reason, err)"
    and rej: "err \<noteq> None \<or> d \<noteq> DecisionAllow"
  shows "Handle L h req =
           \<lparr>returned = Inr False,
            response =
              Some (if err \<noteq> None
                    then (authzMessage ''Authorization error'' u a, StatusInternalServerError)
                    else (authzMessage ''Forbidden'' u a, StatusForbidden)),
            request = req,
            calls = [CallAuthenticateRequest, CallGetRequestAttributes]
                    @ map CallAuthorize (pre @ [a])\<rparr>"
proof -
  let ?rejection =
    "if err \<noteq> None
     then (authzMessage ''Authorization error'' u a, StatusInternalServerError)
     else (authzMessage ''Forbidden'' u a, StatusForbidden)"
  from pre have "\<forall>x\<in>set pre. authorizeOne h u x = None"
    by (simp add: authorizeOne_allow)
  moreover from a rej have "authorizeOne h u a = Some ?rejection"
    by (auto simp: authorizeOne_def)
  ultimately have "authorizeAll h u (pre @ a # post) = (Some ?rejection, pre @ [a])"
    by (rule authorizeAll_first_rejection)
  with authn attrs show ?thesis
    by (simp add: Handle_def)
qed

theorem Handle_first_rejection_witness:
  "Handle fragmentLib (templatedGate ''{{.Value}}'')
     (metricsRequest ''GET'' [''namespace'' \<mapsto> [''default'', ''unreachable'', ''kube-system'']]
        ''alice'') =
     \<lparr>returned = Inr False,
      response =
        Some (''Authorization error (user=alice, verb=get, resource=pods, subresource=)'', 500),
      request =
        metricsRequest ''GET'' [''namespace'' \<mapsto> [''default'', ''unreachable'', ''kube-system'']]
          ''alice'',
      calls = [CallAuthenticateRequest, CallGetRequestAttributes,
               CallAuthorize (literalAttrs (podsIn ''default'') alice ''get''),
               CallAuthorize (literalAttrs (podsIn ''unreachable'') alice ''get'')]\<rparr>
   \<and> Handle fragmentLib (templatedGate ''{{.Value}}'')
     (metricsRequest ''GET'' [''namespace'' \<mapsto> [''default'', ''kube-system'', ''unreachable'']]
        ''alice'') =
     \<lparr>returned = Inr False,
      response = Some (''Forbidden (user=alice, verb=get, resource=pods, subresource=)'', 403),
      request =
        metricsRequest ''GET'' [''namespace'' \<mapsto> [''default'', ''kube-system'', ''unreachable'']]
          ''alice'',
      calls = [CallAuthenticateRequest, CallGetRequestAttributes,
               CallAuthorize (literalAttrs (podsIn ''default'') alice ''get''),
               CallAuthorize (literalAttrs (podsIn ''kube-system'') alice ''get'')]\<rparr>"
proof -
  let ?h = "templatedGate ''{{.Value}}''"
  let ?req = "\<lambda>vs. metricsRequest ''GET'' [''namespace'' \<mapsto> vs] ''alice''"
  let ?q = "\<lambda>ns. literalAttrs (podsIn ns) alice ''get''"
  have authn: "AuthenticateRequest ?h (?req vs) = (alice, True, None)" for vs
    by (simp add: gate_defs double_defs)
  have attrs: "GetRequestAttributes fragmentLib (authorizerAttributesGetter ?h) alice
      (?req [v1, v2, v3]) = Inr ([?q v1] @ ?q v2 # [?q v3])" for v1 v2 v3
    by (simp add: gate_defs resolver_defs metricsRequest_def fragmentLib_def)
  have pre: "\<forall>x\<in>set [?q ''default'']. fst (Authorize ?h x) = DecisionAllow
      \<and> snd (snd (Authorize ?h x)) = None"
    by (simp add: gate_defs namespaceAuthorizer_def literalAttrs_def)
  have failing: "Authorize ?h (?q ''unreachable'') =
      (DecisionNoOpinion, '''', Some ''webhook unreachable'')"
    by (simp add: gate_defs namespaceAuthorizer_def literalAttrs_def)
  have denying: "Authorize ?h (?q ''kube-system'') = (DecisionDeny, ''protected namespace'', None)"
    by (simp add: gate_defs namespaceAuthorizer_def literalAttrs_def)
  show ?thesis
    using Handle_first_rejection [OF authn attrs pre failing]
      Handle_first_rejection [OF authn attrs pre denying]
    by (simp add: authzMessage_def alice_def literalAttrs_def podsIn_def)
qed

subsection \<open>Fan-out over the values of the rewrite parameter\<close>

text \<open>
  C2 (with resource attributes and a rewrite key, a request with k values for the key gives
  k queries, each field a configured template rendered on the value). On the getter as it
  is written this needs the six templates to parse. With the namespace template \<open>{{\<close>
  (an action that is never closed) and the request \<open>GET /metrics?namespace=default\<close>,
  which carries one value, the getter returns no query: the first rendering dereferences
  the nil template, and \<open>Handle\<close> ends in that panic without writing a response.
\<close>

theorem GetRequestAttributes_unclosed_action:
  "GetRequestAttributes fragmentLib (authorizerAttributesGetter (templatedGate ''{{'')) alice
     (metricsRequest ''GET'' [''namespace'' \<mapsto> [''default'']] ''alice'') =
     Inl NilPointerDereference
   \<and> Handle fragmentLib (templatedGate ''{{'')
       (metricsRequest ''GET'' [''namespace'' \<mapsto> [''default'']] ''alice'') =
     \<lparr>returned = Inl NilPointerDereference, response = None,
      request = metricsRequest ''GET'' [''namespace'' \<mapsto> [''default'']] ''alice'',
      calls = [CallAuthenticateRequest, CallGetRequestAttributes]\<rparr>"
  by (simp add: Handle_def gate_defs double_defs resolver_defs fragmentLib_def)

subsection \<open>Requests that are not authenticated\<close>

text \<open>
  C3. When the authenticator returns an error, or returns no error and
  \<open>authenticated = false\<close>, \<open>Handle\<close> returns false with status 401 and the message
  \<open>Unauthorized\<close>, the same in both cases, and the only collaborator called is the
  authenticator: neither the attribute getter nor the authorizer is.
\<close>

theorem Handle_unauthenticated:
  assumes "AuthenticateRequest h req = (u, ok, err)"
    and "err \<noteq> None \<or> \<not> ok"
  shows "Handle L h req =
           \<lparr>returned = Inr False,
            response = Some (''Unauthorized'', StatusUnauthorized),
            request = req,
            calls = [CallAuthenticateRequest]\<rparr>"
  using assms by (auto simp: Handle_def)

theorem Handle_unauthenticated_witness:
  "Handle fragmentLib pathGate (metricsRequest ''GET'' Map.empty ''expired'') =
     \<lparr>returned = Inr False, response = Some (''Unauthorized'', 401),
      request = metricsRequest ''GET'' Map.empty ''expired'',
      calls = [CallAuthenticateRequest]\<rparr>
   \<and> Handle fragmentLib pathGate (metricsRequest ''GET'' Map.empty ''mallory'') =
     \<lparr>returned = Inr False, response = Some (''Unauthorized'', 401),
      request = metricsRequest ''GET'' Map.empty ''mallory'',
      calls = [CallAuthenticateRequest]\<rparr>"
proof -
  have failed: "AuthenticateRequest pathGate (metricsRequest ''GET'' Map.empty ''expired'') =
      (anonymous, False, Some ''token review failed'')"
    by (simp add: gate_defs double_defs)
  have unknown: "AuthenticateRequest pathGate (metricsRequest ''GET'' Map.empty ''mallory'') =
      (anonymous, False, None)"
    by (simp add: gate_defs double_defs)
  show ?thesis
    using Handle_unauthenticated [OF failed, of fragmentLib]
      Handle_unauthenticated [OF unknown, of fragmentLib]
    by simp
qed

subsection \<open>The request's headers\<close>

text \<open>
  C4, amended. Whenever \<open>Handle\<close> does not return true (it returned false or panicked) the
  request is as it was; every response it writes has one of the status codes 401, 400, 403
  and 500 and comes with the result false. When it returns true, the header-injection
  policy is present, and the request is unchanged if the policy is disabled. If it is
  enabled, the request's header collection is the old one after \<open>Set\<close> of the configured
  user header to the authenticated user's name and then \<open>Set\<close> of the configured groups
  header to the user's groups joined by the configured separator: read back, the groups
  header holds the joined groups, and the user header holds the user's name provided the
  two configured names are different header keys. When they are one key, the user header
  holds the joined groups too.
\<close>

theorem Handle_header_frame:
  "(returned (Handle L h req) \<noteq> Inr True \<longrightarrow> request (Handle L h req) = req)
    \<and> (\<forall>msg status. response (Handle L h req) = Some (msg, status) \<longrightarrow>
          returned (Handle L h req) = Inr False
          \<and> status \<in> {StatusUnauthorized, StatusBadRequest, StatusForbidden,
                       StatusInternalServerError})
    \<and> (returned (Handle L h req) = Inr True \<longrightarrow>
          (\<exists>authn headerCfg.
             Authentication (Config h) = Some authn \<and> AuthnConfig.Header authn = Some headerCfg
             \<and> request (Handle L h req) =
                 (if Enabled headerCfg then
                    req\<lparr>Header :=
                      Header_Set L
                        (Header_Set L (Request.Header req) (UserFieldName headerCfg)
                           (GetName (fst (AuthenticateRequest h req))))
                        (GroupsFieldName headerCfg)
                        (strings_Join (GetGroups (fst (AuthenticateRequest h req)))
                           (GroupSeparator headerCfg))\<rparr>
                  else req)
             \<and> (Enabled headerCfg \<longrightarrow>
                  Header_Get L (Request.Header (request (Handle L h req)))
                      (GroupsFieldName headerCfg) =
                    strings_Join (GetGroups (fst (AuthenticateRequest h req)))
                      (GroupSeparator headerCfg)
                  \<and> (CanonicalMIMEHeaderKey L (UserFieldName headerCfg)
                        \<noteq> CanonicalMIMEHeaderKey L (GroupsFieldName headerCfg) \<longrightarrow>
                      Header_Get L (Request.Header (request (Handle L h req)))
                          (UserFieldName headerCfg) =
                        GetName (fst (AuthenticateRequest h req)))
                  \<and> (CanonicalMIMEHeaderKey L (UserFieldName headerCfg)
                        = CanonicalMIMEHeaderKey L (GroupsFieldName headerCfg) \<longrightarrow>
                      Header_Get L (Request.Header (request (Handle L h req)))
                          (UserFieldName headerCfg) =
                        strings_Join (GetGroups (fst (AuthenticateRequest h req)))
                          (GroupSeparator headerCfg)))))"
proof -
  let ?u = "fst (AuthenticateRequest h req)"
  note after = Handle_request_after [of L h req]
  have success: "\<exists>authn headerCfg.
             Authentication (Config h) = Some authn \<and> AuthnConfig.Header authn = Some headerCfg
             \<and> request (Handle L h req) =
                 (if Enabled headerCfg then
                    req\<lparr>Header :=
                      Header_Set L
                        (Header_Set L (Request.Header req) (UserFieldName headerCfg) (GetName ?u))
                        (GroupsFieldName headerCfg)
                        (strings_Join (GetGroups ?u) (GroupSeparator headerCfg))\<rparr>
                  else req)
             \<and> (Enabled headerCfg \<longrightarrow>
                  Header_Get L (Request.Header (request (Handle L h req)))
                      (GroupsFieldName headerCfg) =
                    strings_Join (GetGroups ?u) (GroupSeparator headerCfg)
                  \<and> (CanonicalMIMEHeaderKey L (UserFieldName headerCfg)
                        \<noteq> CanonicalMIMEHeaderKey L (GroupsFieldName headerCfg) \<longrightarrow>
                      Header_Get L (Request.Header (request (Handle L h req)))
                          (UserFieldName headerCfg) = GetName ?u)
                  \<and> (CanonicalMIMEHeaderKey L (UserFieldName headerCfg)
                        = CanonicalMIMEHeaderKey L (GroupsFieldName headerCfg) \<longrightarrow>
                      Header_Get L (Request.Header (request (Handle L h req)))
                          (UserFieldName headerCfg) =
                        strings_Join (GetGroups ?u) (GroupSeparator headerCfg)))"
    if ok: "returned (Handle L h req) = Inr True"
  proof -
    from after ok obtain authn headerCfg
      where cfg: "Authentication (Config h) = Some authn" "AuthnConfig.Header authn = Some headerCfg"
        and req': "request (Handle L h req) =
          (if Enabled headerCfg then injectHeaders L headerCfg ?u req else req)"
      by blast
    from req' have "request (Handle L h req) =
                 (if Enabled headerCfg then
                    req\<lparr>Header :=
                      Header_Set L
                        (Header_Set L (Request.Header req) (UserFieldName headerCfg) (GetName ?u))
                        (GroupsFieldName headerCfg)
                        (strings_Join (GetGroups ?u) (GroupSeparator headerCfg))\<rparr>
                  else req)"
      by (simp add: injectHeaders_def)
    moreover from req' have "Enabled headerCfg \<longrightarrow>
                  Header_Get L (Request.Header (request (Handle L h req)))
                      (GroupsFieldName headerCfg) =
                    strings_Join (GetGroups ?u) (GroupSeparator headerCfg)
                  \<and> (CanonicalMIMEHeaderKey L (UserFieldName headerCfg)
                        \<noteq> CanonicalMIMEHeaderKey L (GroupsFieldName headerCfg) \<longrightarrow>
                      Header_Get L (Request.Header (request (Handle L h req)))
                          (UserFieldName headerCfg) = GetName ?u)
                  \<and> (CanonicalMIMEHeaderKey L (UserFieldName headerCfg)
                        = CanonicalMIMEHeaderKey L (GroupsFieldName headerCfg) \<longrightarrow>
                      Header_Get L (Request.Header (request (Handle L h req)))
                          (UserFieldName headerCfg) =
                        strings_Join (GetGroups ?u) (GroupSeparator headerCfg))"
      by (simp add: injectHeaders_groups injectHeaders_user injectHeaders_user_replaced)
    ultimately show ?thesis using cfg by blast
  qed
  from after success show ?thesis by blast
qed

theorem Handle_header_frame_witness:
  "returned (Handle fragmentLib pathGate (metricsRequest ''GET'' Map.empty ''alice'')) = Inr True
   \<and> Request.Header (request (Handle fragmentLib pathGate (metricsRequest ''GET'' Map.empty ''alice''))) =
       [''Authorization'' \<mapsto> [''Bearer alice''], ''X-Remote-User'' \<mapsto> [''alice''],
        ''X-Remote-Groups'' \<mapsto> [''dev|ops'']]
   \<and> Header_Get fragmentLib
        (Request.Header (request (Handle fragmentLib pathGate
           (metricsRequest ''GET'' Map.empty ''alice'')))) ''x-remote-user'' = ''alice''
   \<and> Header_Get fragmentLib
        (Request.Header (request (Handle fragmentLib pathGate
           (metricsRequest ''GET'' Map.empty ''alice'')))) ''x-remote-groups'' = ''dev|ops''
   \<and> response (Handle fragmentLib (literalGate (Some headerConfig))
        (metricsRequest ''GET'' Map.empty ''mallory'')) = Some (''Unauthorized'', 401)
   \<and> request (Handle fragmentLib (literalGate (Some headerConfig))
        (metricsRequest ''GET'' Map.empty ''mallory'')) = metricsRequest ''GET'' Map.empty ''mallory''
   \<and> Header_Get fragmentLib
        (Request.Header (request (Handle fragmentLib (literalGate (Some collidingHeaders))
           (metricsRequest ''GET'' Map.empty ''alice'')))) ''x-id'' = ''dev|ops''"
proof -
  let ?req = "metricsRequest ''GET'' Map.empty ''alice''"
  let ?ok = "Handle fragmentLib pathGate ?req"
  let ?rejected = "Handle fragmentLib (literalGate (Some headerConfig))
      (metricsRequest ''GET'' Map.empty ''mallory'')"
  let ?colliding = "Handle fragmentLib (literalGate (Some collidingHeaders)) ?req"
  have ok: "returned ?ok = Inr True"
    by (simp add: Handle_def authorizeOne_def gate_defs double_defs resolver_defs)
  have ok': "returned ?colliding = Inr True"
    by (simp add: Handle_def authorizeOne_def collidingHeaders_def gate_defs double_defs
        resolver_defs)
  have rejected: "response ?rejected = Some (''Unauthorized'', 401)"
    by (simp add: Handle_def gate_defs double_defs)
  have cfg: "Authentication (Config pathGate) = Some headerConfig"
    by (simp add: pathGate_def newKubeRBACProxyAuth_def)
  have cfg': "Authentication (Config (literalGate (Some collidingHeaders))) = Some collidingHeaders"
    by (simp add: literalGate_def newKubeRBACProxyAuth_def)
  have u: "fst (AuthenticateRequest pathGate ?req) = alice"
    by (simp add: gate_defs double_defs)
  have u': "fst (AuthenticateRequest (literalGate (Some collidingHeaders)) ?req) = alice"
    by (simp add: gate_defs double_defs)
  have distinct: "CanonicalMIMEHeaderKey fragmentLib ''x-remote-user''
      \<noteq> CanonicalMIMEHeaderKey fragmentLib ''x-remote-groups''"
    by (simp add: lib_defs)
  have same: "CanonicalMIMEHeaderKey fragmentLib ''x-id'' = CanonicalMIMEHeaderKey fragmentLib ''X-ID''"
    by (simp add: lib_defs)
  from Handle_header_frame [of fragmentLib pathGate ?req] ok cfg u distinct
  have injected: "Request.Header (request ?ok) =
      [''Authorization'' \<mapsto> [''Bearer alice''], ''X-Remote-User'' \<mapsto> [''alice''],
       ''X-Remote-Groups'' \<mapsto> [''dev|ops'']]
     \<and> Header_Get fragmentLib (Request.Header (request ?ok)) ''x-remote-user'' = ''alice''
     \<and> Header_Get fragmentLib (Request.Header (request ?ok)) ''x-remote-groups'' = ''dev|ops''"
    by (auto simp: headerConfig_def Header_Set_def lib_defs metricsRequest_def alice_def)
  from Handle_header_frame [of fragmentLib "literalGate (Some headerConfig)"
      "metricsRequest ''GET'' Map.empty ''mallory''"] rejected
  have unchanged: "request ?rejected = metricsRequest ''GET'' Map.empty ''mallory''"
    by simp
  from Handle_header_frame [of fragmentLib "literalGate (Some collidingHeaders)" ?req] ok' cfg' u' same
  have replaced: "Header_Get fragmentLib (Request.Header (request ?colliding)) ''x-id'' = ''dev|ops''"
    by (auto simp: collidingHeaders_def alice_def)
  from ok injected rejected unchanged replaced show ?thesis
    by blast
qed

text \<open>
  The claim without the proviso, that on success the user header holds the identity's name,
  fails for the policy \<open>collidingHeaders\<close>: its user header \<open>x-id\<close> and its groups header
  \<open>X-ID\<close> are the same header key, the request of \<open>alice\<close> is forwarded, and the user
  header then reads \<open>dev|ops\<close>.
\<close>

theorem Handle_header_collision:
  "AuthenticateRequest (literalGate (Some collidingHeaders))
       (metricsRequest ''GET'' Map.empty ''alice'') = (alice, True, None)
   \<and> GetName alice = ''alice''
   \<and> returned (Handle fragmentLib (literalGate (Some collidingHeaders))
        (metricsRequest ''GET'' Map.empty ''alice'')) = Inr True
   \<and> Header_Get fragmentLib
        (Request.Header (request (Handle fragmentLib (literalGate (Some collidingHeaders))
           (metricsRequest ''GET'' Map.empty ''alice''))))
        ''x-id'' = ''dev|ops''
   \<and> Header_Get fragmentLib
        (Request.Header (request (Handle fragmentLib (literalGate (Some collidingHeaders))
           (metricsRequest ''GET'' Map.empty ''alice''))))
        ''x-id'' \<noteq> GetName alice"
  by (simp add: Handle_def authorizeOne_def injectHeaders_def Header_Get_def Header_Set_def
      collidingHeaders_def gate_defs double_defs resolver_defs lib_defs)

subsection \<open>The template expander\<close>

text \<open>
  C5 (an empty template gives the empty string, and no template string, malformed ones
  included, makes the expander abort). The empty template does give the empty string, and
  \<open>{{.Value}}\<close> gives the value. But for the template \<open>{{\<close>, whose action is never
  closed, \<open>Parse\<close> returns the nil template, and the expander, which calls \<open>Execute\<close> on
  it, ends in a nil-pointer panic instead of returning a string.
\<close>

theorem templateWithValue_unclosed_action:
  "templateWithValue fragmentLib '''' ''default'' = Inr ''''
   \<and> templateWithValue fragmentLib ''{{.Value}}'' ''default'' = Inr ''default''
   \<and> template_Parse fragmentLib ''{{'' = None
   \<and> templateWithValue fragmentLib ''{{'' ''default'' = Inl NilPointerDereference"
  by (simp add: templateWithValue_def fragmentLib_def)

subsection \<open>The configuration copy\<close>

lemma DeepCopy_Authentication:
  "Authentication c = Some authn \<Longrightarrow> Authentication (DeepCopy c) = Some authn"
  by (cases authn) (simp add: DeepCopy_def copyX509_def copyHeader_def split: option.splits)

lemma DeepCopy_ResourceAttributes:
  "Authorization c = Some authz \<Longrightarrow> AuthzConfig.ResourceAttributes authz = Some ra \<Longrightarrow>
   Authorization (DeepCopy c) = Some \<lparr>Rewrites = None, ResourceAttributes = Some ra\<rparr>"
  by (simp add: DeepCopy_def)

text \<open>
  C6 (the copy equals the original in every field of every sub-block, including
  \<open>Authorization.Rewrites.ByQueryParameter\<close>). The authentication block and the resource
  attributes are copied field by field, but for the configuration \<open>rewriteConfig\<close>, whose
  rewrite key is \<open>namespace\<close>, the copy's \<open>Rewrites\<close> is nil: the copy differs from the
  original, and an attribute getter built from the copy answers the request
  \<open>GET /metrics?namespace=default&namespace=kube-system\<close> with one query for the namespace
  \<open>{{.Value}}\<close> where the original's answers with one query for each of the two values.
\<close>

theorem DeepCopy_drops_Rewrites:
  "Authentication (DeepCopy rewriteConfig) = Authentication rewriteConfig
   \<and> Authorization (DeepCopy rewriteConfig) =
       Some \<lparr>Rewrites = None, ResourceAttributes = Some (podsIn ''{{.Value}}'')\<rparr>
   \<and> DeepCopy rewriteConfig \<noteq> rewriteConfig
   \<and> GetRequestAttributes fragmentLib
       (newKubeRBACProxyAuthorizerAttributesGetter (Authorization rewriteConfig)) alice
       (metricsRequest ''GET'' [''namespace'' \<mapsto> [''default'', ''kube-system'']] ''alice'') =
       Inr [literalAttrs (podsIn ''default'') alice ''get'',
            literalAttrs (podsIn ''kube-system'') alice ''get'']
   \<and> GetRequestAttributes fragmentLib
       (newKubeRBACProxyAuthorizerAttributesGetter (Authorization (DeepCopy rewriteConfig))) alice
       (metricsRequest ''GET'' [''namespace'' \<mapsto> [''default'', ''kube-system'']] ''alice'') =
       Inr [literalAttrs (podsIn ''{{.Value}}'') alice ''get'']"
proof -
  have authn: "Authentication (DeepCopy rewriteConfig) = Authentication rewriteConfig"
    by (simp add: DeepCopy_def rewriteConfig_def headerConfig_def copyX509_def copyHeader_def)
  have authz: "Authorization (DeepCopy rewriteConfig) =
      Some \<lparr>Rewrites = None, ResourceAttributes = Some (podsIn ''{{.Value}}'')\<rparr>"
    by (simp add: DeepCopy_def rewriteConfig_def podsIn_def)
  have "Authorization rewriteConfig \<noteq> Authorization (DeepCopy rewriteConfig)"
    by (simp add: authz) (simp add: rewriteConfig_def)
  then have differs: "DeepCopy rewriteConfig \<noteq> rewriteConfig"
    by auto
  have original: "GetRequestAttributes fragmentLib
       (newKubeRBACProxyAuthorizerAttributesGetter (Authorization rewriteConfig)) alice
       (metricsRequest ''GET'' [''namespace'' \<mapsto> [''default'', ''kube-system'']] ''alice'') =
       Inr [literalAttrs (podsIn ''default'') alice ''get'',
            literalAttrs (podsIn ''kube-system'') alice ''get'']"
    by (simp add: rewriteConfig_def gate_defs resolver_defs metricsRequest_def fragmentLib_def)
  have copy: "GetRequestAttributes fragmentLib
       (newKubeRBACProxyAuthorizerAttributesGetter (Authorization (DeepCopy rewriteConfig))) alice
       (metricsRequest ''GET'' [''namespace'' \<mapsto> [''default'', ''kube-system'']] ''alice'') =
       Inr [literalAttrs (podsIn ''{{.Value}}'') alice ''get'']"
    by (simp add: authz newKubeRBACProxyAuthorizerAttributesGetter_def GetRequestAttributes_def
        rewriteName_def apiVerbOf_def metricsRequest_def)
  from authn authz differs original copy show ?thesis
    by (intro conjI)
qed

subsection \<open>No resource attributes: one query for the path\<close>

text \<open>
  C7. For a getter whose configuration has \<open>ResourceAttributes\<close> unset, whatever the
  configuration's \<open>Rewrites\<close> block is, and for every request, the getter returns exactly
  one query: it is not a resource request, its path is the request's URL path, its verb is
  the one of the request's method, and its six resource fields are empty.
\<close>

theorem GetRequestAttributes_path:
  assumes "authzConfig n = Some cfg"
    and "AuthzConfig.ResourceAttributes cfg = None"
  shows "GetRequestAttributes L n u r =
           Inr [\<lparr>User = u,
                 Verb = apiVerbOf (Method r),
                 AttributesRecord.Namespace = '''',
                 AttributesRecord.APIGroup = '''',
                 AttributesRecord.APIVersion = '''',
                 AttributesRecord.Resource = '''',
                 AttributesRecord.Subresource = '''',
                 AttributesRecord.Name = '''',
                 ResourceRequest = False,
                 Path = URL_Path r\<rparr>]"
  using assms by (simp add: GetRequestAttributes_def pathAttrs_def)

theorem GetRequestAttributes_path_witness:
  "GetRequestAttributes fragmentLib (authorizerAttributesGetter pathGate) alice
     (metricsRequest ''GET'' [''namespace'' \<mapsto> [''default'', ''kube-system'']] ''alice'') =
   Inr [\<lparr>User = alice, Verb = ''get'',
         AttributesRecord.Namespace = '''', AttributesRecord.APIGroup = '''',
         AttributesRecord.APIVersion = '''', AttributesRecord.Resource = '''',
         AttributesRecord.Subresource = '''', AttributesRecord.Name = '''',
         ResourceRequest = False, Path = ''/metrics''\<rparr>]"
proof -
  have cfg: "authzConfig (authorizerAttributesGetter pathGate) =
      Some \<lparr>Rewrites = Some namespaceRewrite, ResourceAttributes = None\<rparr>"
    by (simp add: gate_defs)
  have unset: "AuthzConfig.ResourceAttributes
      \<lparr>Rewrites = Some namespaceRewrite, ResourceAttributes = None\<rparr> = None"
    by simp
  show ?thesis
    using GetRequestAttributes_path [OF cfg unset, of fragmentLib alice
        "metricsRequest ''GET'' [''namespace'' \<mapsto> [''default'', ''kube-system'']] ''alice''"]
    by (simp add: metricsRequest_def apiVerbOf_def)
qed

subsection \<open>Resource attributes without a rewrite: one literal query\<close>

text \<open>
  C8. For a getter whose configuration has \<open>ResourceAttributes\<close> set and no rewrite
  configured (no \<open>Rewrites\<close> block, no \<open>ByQueryParameter\<close> in it, or an empty parameter
  name), the getter returns exactly one query: a resource request whose six resource fields
  are the configured strings themselves, whatever the request's query string holds.
\<close>

theorem GetRequestAttributes_literal:
  assumes "authzConfig n = Some cfg"
    and "AuthzConfig.ResourceAttributes cfg = Some ra"
    and "Rewrites cfg = None
         \<or> (\<exists>rw. Rewrites cfg = Some rw
               \<and> (ByQueryParameter rw = None
                    \<or> (\<exists>q. ByQueryParameter rw = Some q \<and> QueryParameterRewriteConfig.Name q = '''')))"
  shows "GetRequestAttributes L n u (r\<lparr>URL_Query := query\<rparr>) =
           Inr [\<lparr>User = u,
                 Verb = apiVerbOf (Method r),
                 AttributesRecord.Namespace = ResourceAttributes.Namespace ra,
                 AttributesRecord.APIGroup = ResourceAttributes.APIGroup ra,
                 AttributesRecord.APIVersion = ResourceAttributes.APIVersion ra,
                 AttributesRecord.Resource = ResourceAttributes.Resource ra,
                 AttributesRecord.Subresource = ResourceAttributes.Subresource ra,
                 AttributesRecord.Name = ResourceAttributes.Name ra,
                 ResourceRequest = True,
                 Path = ''''\<rparr>]"
proof -
  from assms(3) have "rewriteName cfg = None"
    by (auto simp: rewriteName_def)
  with assms(1,2) show ?thesis
    by (simp add: GetRequestAttributes_def literalAttrs_def)
qed

theorem GetRequestAttributes_literal_witness:
  "GetRequestAttributes fragmentLib (authorizerAttributesGetter (literalGate None)) alice
     (metricsRequest ''PUT'' [''namespace'' \<mapsto> [''kube-system'']] ''alice'') =
   Inr [\<lparr>User = alice, Verb = ''update'',
         AttributesRecord.Namespace = ''default'', AttributesRecord.APIGroup = '''',
         AttributesRecord.APIVersion = ''v1'', AttributesRecord.Resource = ''pods'',
         AttributesRecord.Subresource = '''', AttributesRecord.Name = '''',
         ResourceRequest = True, Path = ''''\<rparr>]"
proof -
  let ?cfg = "\<lparr>Rewrites = None, ResourceAttributes = Some (podsIn ''default'')\<rparr>"
  have cfg: "authzConfig (authorizerAttributesGetter (literalGate None)) = Some ?cfg"
    by (simp add: literalGate_def newKubeRBACProxyAuth_def
        newKubeRBACProxyAuthorizerAttributesGetter_def)
  have ra: "AuthzConfig.ResourceAttributes ?cfg = Some (podsIn ''default'')"
    by simp
  have none: "Rewrites ?cfg = None
      \<or> (\<exists>rw. Rewrites ?cfg = Some rw
            \<and> (ByQueryParameter rw = None
                 \<or> (\<exists>q. ByQueryParameter rw = Some q \<and> QueryParameterRewriteConfig.Name q = '''')))"
    by simp
  show ?thesis
    using GetRequestAttributes_literal [OF cfg ra none, where L = fragmentLib and u = alice
        and r = "metricsRequest ''PUT'' Map.empty ''alice''"
        and query = "[''namespace'' \<mapsto> [''kube-system'']]"]
    by (simp add: metricsRequest_def apiVerbOf_def podsIn_def)
qed

subsection \<open>Methods and verbs\<close>

text \<open>
  C9. The methods POST, GET, PUT, PATCH and DELETE give the verbs create, get, update,
  patch and delete, every other method gives the empty verb, and every query the getter
  returns carries the verb of the request's method. The empty verb is not an error. The
  getter's result for a request depends on the method through the verb alone (with another
  method it returns the same queries with the other verb, or the same panic), and every
  authenticated request reaches the getter. When the method is not one of the five, the
  request is authenticated and the getter returns a non-empty sequence, the first query has
  the empty verb, the authorizer is called with it, and its answer decides as for any other
  verb: 500 on an error, 403 on a decision other than allow, and, when it and the remaining
  queries are allowed, no response and the result of the success path.
\<close>

theorem method_to_verb:
  "apiVerbOf ''POST'' = ''create'' \<and> apiVerbOf ''GET'' = ''get'' \<and> apiVerbOf ''PUT'' = ''update''
   \<and> apiVerbOf ''PATCH'' = ''patch'' \<and> apiVerbOf ''DELETE'' = ''delete''
   \<and> (m \<notin> {''POST'', ''GET'', ''PUT'', ''PATCH'', ''DELETE''} \<longrightarrow> apiVerbOf m = '''')
   \<and> (GetRequestAttributes L (authorizerAttributesGetter h) u req = Inr allAttrs \<longrightarrow>
        (\<forall>a\<in>set allAttrs. Verb a = apiVerbOf (Method req)))
   \<and> GetRequestAttributes L (authorizerAttributesGetter h) u (req\<lparr>Method := m\<rparr>) =
        map_sum id (map (\<lambda>a. a\<lparr>Verb := apiVerbOf m\<rparr>))
          (GetRequestAttributes L (authorizerAttributesGetter h) u req)
   \<and> (AuthenticateRequest h req = (u, True, None) \<longrightarrow>
        take 2 (calls (Handle L h req)) = [CallAuthenticateRequest, CallGetRequestAttributes])
   \<and> (Method req \<notin> {''POST'', ''GET'', ''PUT'', ''PATCH'', ''DELETE''}
        \<and> AuthenticateRequest h req = (u, True, None)
        \<and> GetRequestAttributes L (authorizerAttributesGetter h) u req = Inr (a # rest)
        \<and> Authorize h a = (d, reason, err) \<longrightarrow>
        Verb a = ''''
        \<and> take 3 (calls (Handle L h req)) =
            [CallAuthenticateRequest, CallGetRequestAttributes, CallAuthorize a]
        \<and> (err \<noteq> None \<longrightarrow>
             Handle L h req =
               \<lparr>returned = Inr False,
                response = Some (authzMessage ''Authorization error'' u a,
                                 StatusInternalServerError),
                request = req,
                calls = [CallAuthenticateRequest, CallGetRequestAttributes, CallAuthorize a]\<rparr>)
        \<and> (err = None \<and> d \<noteq> DecisionAllow \<longrightarrow>
             Handle L h req =
               \<lparr>returned = Inr False,
                response = Some (authzMessage ''Forbidden'' u a, StatusForbidden),
                request = req,
                calls = [CallAuthenticateRequest, CallGetRequestAttributes, CallAuthorize a]\<rparr>)
        \<and> (err = None \<and> d = DecisionAllow
             \<and> (\<forall>x\<in>set rest. fst (Authorize h x) = DecisionAllow
                               \<and> snd (snd (Authorize h x)) = None) \<longrightarrow>
             returned (Handle L h req) =
               (case Authentication (Config h) of
                  None \<Rightarrow> Inl NilPointerDereference
                | Some authn \<Rightarrow>
                    (case AuthnConfig.Header authn of
                       None \<Rightarrow> Inl NilPointerDereference
                     | Some headerCfg \<Rightarrow> Inr True))
             \<and> response (Handle L h req) = None
             \<and> calls (Handle L h req) =
                 [CallAuthenticateRequest, CallGetRequestAttributes]
                 @ map CallAuthorize (a # rest)))"
proof -
  have verbs: "apiVerbOf ''POST'' = ''create'' \<and> apiVerbOf ''GET'' = ''get''
      \<and> apiVerbOf ''PUT'' = ''update'' \<and> apiVerbOf ''PATCH'' = ''patch''
      \<and> apiVerbOf ''DELETE'' = ''delete''"
    by (simp add: apiVerbOf_def)
  have other: "m \<notin> {''POST'', ''GET'', ''PUT'', ''PATCH'', ''DELETE''} \<longrightarrow> apiVerbOf m = ''''"
    by (simp add: apiVerbOf_other)
  have carried: "GetRequestAttributes L (authorizerAttributesGetter h) u req = Inr allAttrs \<longrightarrow>
        (\<forall>a\<in>set allAttrs. Verb a = apiVerbOf (Method req))"
    by (simp add: GetRequestAttributes_Verb)
  have verbOnly: "GetRequestAttributes L (authorizerAttributesGetter h) u (req\<lparr>Method := m\<rparr>) =
        map_sum id (map (\<lambda>a. a\<lparr>Verb := apiVerbOf m\<rparr>))
          (GetRequestAttributes L (authorizerAttributesGetter h) u req)"
    by (rule GetRequestAttributes_Method)
  have resolves: "AuthenticateRequest h req = (u, True, None) \<longrightarrow>
        take 2 (calls (Handle L h req)) = [CallAuthenticateRequest, CallGetRequestAttributes]"
    by (simp add: Handle_resolves)
  have proceeds: "Method req \<notin> {''POST'', ''GET'', ''PUT'', ''PATCH'', ''DELETE''}
        \<and> AuthenticateRequest h req = (u, True, None)
        \<and> GetRequestAttributes L (authorizerAttributesGetter h) u req = Inr (a # rest)
        \<and> Authorize h a = (d, reason, err) \<longrightarrow>
        Verb a = ''''
        \<and> take 3 (calls (Handle L h req)) =
            [CallAuthenticateRequest, CallGetRequestAttributes, CallAuthorize a]
        \<and> (err \<noteq> None \<longrightarrow>
             Handle L h req =
               \<lparr>returned = Inr False,
                response = Some (authzMessage ''Authorization error'' u a,
                                 StatusInternalServerError),
                request = req,
                calls = [CallAuthenticateRequest, CallGetRequestAttributes, CallAuthorize a]\<rparr>)
        \<and> (err = None \<and> d \<noteq> DecisionAllow \<longrightarrow>
             Handle L h req =
               \<lparr>returned = Inr False,
                response = Some (authzMessage ''Forbidden'' u a, StatusForbidden),
                request = req,
                calls = [CallAuthenticateRequest, CallGetRequestAttributes, CallAuthorize a]\<rparr>)
        \<and> (err = None \<and> d = DecisionAllow
             \<and> (\<forall>x\<in>set rest. fst (Authorize h x) = DecisionAllow
                               \<and> snd (snd (Authorize h x)) = None) \<longrightarrow>
             returned (Handle L h req) =
               (case Authentication (Config h) of
                  None \<Rightarrow> Inl NilPointerDereference
                | Some authn \<Rightarrow>
                    (case AuthnConfig.Header authn of
                       None \<Rightarrow> Inl NilPointerDereference
                     | Some headerCfg \<Rightarrow> Inr True))
             \<and> response (Handle L h req) = None
             \<and> calls (Handle L h req) =
                 [CallAuthenticateRequest, CallGetRequestAttributes]
                 @ map CallAuthorize (a # rest))"
  proof (intro impI, elim conjE)
    assume m: "Method req \<notin> {''POST'', ''GET'', ''PUT'', ''PATCH'', ''DELETE''}"
      and authn: "AuthenticateRequest h req = (u, True, None)"
      and attrs: "GetRequestAttributes L (authorizerAttributesGetter h) u req = Inr (a # rest)"
      and a: "Authorize h a = (d, reason, err)"
    from attrs have "Verb a = apiVerbOf (Method req)"
      using GetRequestAttributes_Verb by fastforce
    with apiVerbOf_other [OF m] have verb: "Verb a = ''''" by simp
    from authn attrs
    have reached: "take 3 (calls (Handle L h req)) =
            [CallAuthenticateRequest, CallGetRequestAttributes, CallAuthorize a]"
      by (rule Handle_reaches_Authorize)
    have failing: "err \<noteq> None \<longrightarrow>
             Handle L h req =
               \<lparr>returned = Inr False,
                response = Some (authzMessage ''Authorization error'' u a,
                                 StatusInternalServerError),
                request = req,
                calls = [CallAuthenticateRequest, CallGetRequestAttributes, CallAuthorize a]\<rparr>"
    proof
      assume "err \<noteq> None"
      with a have "authorizeOne h u a =
          Some (authzMessage ''Authorization error'' u a, StatusInternalServerError)"
        by (simp add: authorizeOne_def)
      with authn attrs show "Handle L h req =
               \<lparr>returned = Inr False,
                response = Some (authzMessage ''Authorization error'' u a,
                                 StatusInternalServerError),
                request = req,
                calls = [CallAuthenticateRequest, CallGetRequestAttributes, CallAuthorize a]\<rparr>"
        by (rule Handle_rejects_first)
    qed
    have denying: "err = None \<and> d \<noteq> DecisionAllow \<longrightarrow>
             Handle L h req =
               \<lparr>returned = Inr False,
                response = Some (authzMessage ''Forbidden'' u a, StatusForbidden),
                request = req,
                calls = [CallAuthenticateRequest, CallGetRequestAttributes, CallAuthorize a]\<rparr>"
    proof
      assume "err = None \<and> d \<noteq> DecisionAllow"
      with a have "authorizeOne h u a = Some (authzMessage ''Forbidden'' u a, StatusForbidden)"
        by (simp add: authorizeOne_def)
      with authn attrs show "Handle L h req =
               \<lparr>returned = Inr False,
                response = Some (authzMessage ''Forbidden'' u a, StatusForbidden),
                request = req,
                calls = [CallAuthenticateRequest, CallGetRequestAttributes, CallAuthorize a]\<rparr>"
        by (rule Handle_rejects_first)
    qed
    have allowing: "err = None \<and> d = DecisionAllow
             \<and> (\<forall>x\<in>set rest. fst (Authorize h x) = DecisionAllow
                               \<and> snd (snd (Authorize h x)) = None) \<longrightarrow>
             returned (Handle L h req) =
               (case Authentication (Config h) of
                  None \<Rightarrow> Inl NilPointerDereference
                | Some authn \<Rightarrow>
                    (case AuthnConfig.Header authn of
                       None \<Rightarrow> Inl NilPointerDereference
                     | Some headerCfg \<Rightarrow> Inr True))
             \<and> response (Handle L h req) = None
             \<and> calls (Handle L h req) =
                 [CallAuthenticateRequest, CallGetRequestAttributes]
                 @ map CallAuthorize (a # rest)"
    proof
      assume ok: "err = None \<and> d = DecisionAllow
             \<and> (\<forall>x\<in>set rest. fst (Authorize h x) = DecisionAllow
                               \<and> snd (snd (Authorize h x)) = None)"
      with a have "\<forall>x\<in>set (a # rest). authorizeOne h u x = None"
        by (simp add: authorizeOne_allow)
      with authn attrs show "returned (Handle L h req) =
               (case Authentication (Config h) of
                  None \<Rightarrow> Inl NilPointerDereference
                | Some authn \<Rightarrow>
                    (case AuthnConfig.Header authn of
                       None \<Rightarrow> Inl NilPointerDereference
                     | Some headerCfg \<Rightarrow> Inr True))
             \<and> response (Handle L h req) = None
             \<and> calls (Handle L h req) =
                 [CallAuthenticateRequest, CallGetRequestAttributes]
                 @ map CallAuthorize (a # rest)"
        by (rule Handle_all_allowed)
    qed
    from verb reached failing denying allowing
    show "Verb a = ''''
        \<and> take 3 (calls (Handle L h req)) =
            [CallAuthenticateRequest, CallGetRequestAttributes, CallAuthorize a]
        \<and> (err \<noteq> None \<longrightarrow>
             Handle L h req =
               \<lparr>returned = Inr False,
                response = Some (authzMessage ''Authorization error'' u a,
                                 StatusInternalServerError),
                request = req,
                calls = [CallAuthenticateRequest, CallGetRequestAttributes, CallAuthorize a]\<rparr>)
        \<and> (err = None \<and> d \<noteq> DecisionAllow \<longrightarrow>
             Handle L h req =
               \<lparr>returned = Inr False,
                response = Some (authzMessage ''Forbidden'' u a, StatusForbidden),
                request = req,
                calls = [CallAuthenticateRequest, CallGetRequestAttributes, CallAuthorize a]\<rparr>)
        \<and> (err = None \<and> d = DecisionAllow
             \<and> (\<forall>x\<in>set rest. fst (Authorize h x) = DecisionAllow
                               \<and> snd (snd (Authorize h x)) = None) \<longrightarrow>
             returned (Handle L h req) =
               (case Authentication (Config h) of
                  None \<Rightarrow> Inl NilPointerDereference
                | Some authn \<Rightarrow>
                    (case AuthnConfig.Header authn of
                       None \<Rightarrow> Inl NilPointerDereference
                     | Some headerCfg \<Rightarrow> Inr True))
             \<and> response (Handle L h req) = None
             \<and> calls (Handle L h req) =
                 [CallAuthenticateRequest, CallGetRequestAttributes]
                 @ map CallAuthorize (a # rest))"
      by (intro conjI)
  qed
  from verbs other carried verbOnly resolves proceeds show ?thesis
    by (intro conjI) (simp_all only: simp_thms)
qed

theorem method_to_verb_witness:
  "apiVerbOf ''OPTIONS'' = ''''
   \<and> GetRequestAttributes fragmentLib (authorizerAttributesGetter (templatedGate ''{{.Value}}''))
        alice (metricsRequest ''OPTIONS'' [''namespace'' \<mapsto> [''kube-system'', ''default'']] ''alice'') =
       Inr [literalAttrs (podsIn ''kube-system'') alice '''', literalAttrs (podsIn ''default'') alice '''']
   \<and> Handle fragmentLib (templatedGate ''{{.Value}}'')
        (metricsRequest ''OPTIONS'' [''namespace'' \<mapsto> [''kube-system'', ''default'']] ''alice'') =
       \<lparr>returned = Inr False,
        response = Some (''Forbidden (user=alice, verb=, resource=pods, subresource=)'', 403),
        request = metricsRequest ''OPTIONS'' [''namespace'' \<mapsto> [''kube-system'', ''default'']] ''alice'',
        calls = [CallAuthenticateRequest, CallGetRequestAttributes,
                 CallAuthorize (literalAttrs (podsIn ''kube-system'') alice '''')]\<rparr>
   \<and> Handle fragmentLib (templatedGate ''{{.Value}}'')
        (metricsRequest ''OPTIONS'' [''namespace'' \<mapsto> [''unreachable'', ''default'']] ''alice'') =
       \<lparr>returned = Inr False,
        response =
          Some (''Authorization error (user=alice, verb=, resource=pods, subresource=)'', 500),
        request = metricsRequest ''OPTIONS'' [''namespace'' \<mapsto> [''unreachable'', ''default'']] ''alice'',
        calls = [CallAuthenticateRequest, CallGetRequestAttributes,
                 CallAuthorize (literalAttrs (podsIn ''unreachable'') alice '''')]\<rparr>
   \<and> returned (Handle fragmentLib (templatedGate ''{{.Value}}'')
        (metricsRequest ''OPTIONS'' [''namespace'' \<mapsto> [''default'', ''default'']] ''alice'')) =
       Inr True
   \<and> calls (Handle fragmentLib (templatedGate ''{{.Value}}'')
        (metricsRequest ''OPTIONS'' [''namespace'' \<mapsto> [''default'', ''default'']] ''alice'')) =
       [CallAuthenticateRequest, CallGetRequestAttributes,
        CallAuthorize (literalAttrs (podsIn ''default'') alice ''''),
        CallAuthorize (literalAttrs (podsIn ''default'') alice '''')]"
proof -
  let ?h = "templatedGate ''{{.Value}}''"
  let ?req = "\<lambda>m v1 v2. metricsRequest m [''namespace'' \<mapsto> [v1, v2]] ''alice''"
  let ?q = "\<lambda>ns verb. literalAttrs (podsIn ns) alice verb"
  have m: "Method (?req ''OPTIONS'' v1 v2) \<notin> {''POST'', ''GET'', ''PUT'', ''PATCH'', ''DELETE''}"
    for v1 v2
    by (simp add: metricsRequest_def)
  have authn: "AuthenticateRequest ?h (?req ''OPTIONS'' v1 v2) = (alice, True, None)" for v1 v2
    by (simp add: gate_defs double_defs)
  have get: "GetRequestAttributes fragmentLib (authorizerAttributesGetter ?h) alice
      (?req ''GET'' v1 v2) = Inr [?q v1 ''get'', ?q v2 ''get'']" for v1 v2
    by (simp add: gate_defs resolver_defs metricsRequest_def fragmentLib_def)
  have asOptions: "(?req ''GET'' v1 v2)\<lparr>Method := ''OPTIONS''\<rparr> = ?req ''OPTIONS'' v1 v2" for v1 v2
    by (simp add: metricsRequest_def)
  have attrs: "GetRequestAttributes fragmentLib (authorizerAttributesGetter ?h) alice
      (?req ''OPTIONS'' v1 v2) = Inr (?q v1 '''' # [?q v2 ''''])" for v1 v2
    using method_to_verb [where m = "''OPTIONS''" and L = fragmentLib and h = ?h and u = alice
        and req = "?req ''GET'' v1 v2"]
    by (simp add: get asOptions literalAttrs_def)
  have denying: "Authorize ?h (?q ''kube-system'' '''') = (DecisionDeny, ''protected namespace'', None)"
    by (simp add: gate_defs namespaceAuthorizer_def literalAttrs_def)
  have failing: "Authorize ?h (?q ''unreachable'' '''') =
      (DecisionNoOpinion, '''', Some ''webhook unreachable'')"
    by (simp add: gate_defs namespaceAuthorizer_def literalAttrs_def)
  have allowing: "Authorize ?h (?q ''default'' '''') = (DecisionAllow, '''', None)"
    by (simp add: gate_defs namespaceAuthorizer_def literalAttrs_def)
  have cfg: "Authentication (Config ?h) = Some headerConfig"
    by (simp add: templatedGate_def newKubeRBACProxyAuth_def)
  have hdr: "AuthnConfig.Header headerConfig \<noteq> None"
    by (simp add: headerConfig_def)
  have verb: "apiVerbOf ''OPTIONS'' = ''''"
    using method_to_verb [where m = "''OPTIONS''" and L = fragmentLib and h = ?h and u = alice
        and req = "?req ''GET'' ''default'' ''default''"]
    by simp
  show ?thesis
    using verb attrs [of "''kube-system''" "''default''"]
      m authn attrs denying failing allowing cfg hdr
      method_to_verb [where m = "''OPTIONS''" and L = fragmentLib and h = ?h and u = alice
        and req = "?req ''OPTIONS'' ''kube-system'' ''default''"
        and a = "?q ''kube-system'' ''''" and rest = "[?q ''default'' '''']"
        and d = DecisionDeny and reason = "''protected namespace''" and err = None]
      method_to_verb [where m = "''OPTIONS''" and L = fragmentLib and h = ?h and u = alice
        and req = "?req ''OPTIONS'' ''unreachable'' ''default''"
        and a = "?q ''unreachable'' ''''" and rest = "[?q ''default'' '''']"
        and d = DecisionNoOpinion and reason = "''''" and err = "Some ''webhook unreachable''"]
      method_to_verb [where m = "''OPTIONS''" and L = fragmentLib and h = ?h and u = alice
        and req = "?req ''OPTIONS'' ''default'' ''default''"
        and a = "?q ''default'' ''''" and rest = "[?q ''default'' '''']"
        and d = DecisionAllow and reason = "''''" and err = None]
    by (auto simp: authzMessage_def alice_def literalAttrs_def podsIn_def headerConfig_def)
qed

subsection \<open>The header-injection policy is dereferenced on success\<close>

text \<open>
  C10. On the success path (the request is authenticated, the getter returns a non-empty
  sequence and every query of it is allowed without error) \<open>Handle\<close> reads
  \<open>Config.Authentication.Header.Enabled\<close>: it panics with a nil-pointer dereference when
  \<open>Authentication\<close> or its \<open>Header\<close> is nil, and returns true exactly when both are set.
\<close>

theorem Handle_success_dereferences_Header:
  assumes "AuthenticateRequest h req = (u, True, None)"
    and "GetRequestAttributes L (authorizerAttributesGetter h) u req = Inr allAttrs"
    and "allAttrs \<noteq> []"
    and "\<forall>x\<in>set allAttrs. fst (Authorize h x) = DecisionAllow \<and> snd (snd (Authorize h x)) = None"
  shows "returned (Handle L h req) =
           (case Authentication (Config h) of
              None \<Rightarrow> Inl NilPointerDereference
            | Some authn \<Rightarrow>
                (case AuthnConfig.Header authn of
                   None \<Rightarrow> Inl NilPointerDereference
                 | Some headerCfg \<Rightarrow> Inr True))"
proof -
  from assms(4) have "\<forall>x\<in>set allAttrs. authorizeOne h u x = None"
    by (simp add: authorizeOne_allow)
  then have "authorizeAll h u allAttrs = (None, allAttrs)"
    by (rule authorizeAll_allowed)
  with assms(1-3) show ?thesis
    by (simp add: Handle_def split: option.splits)
qed

theorem Handle_success_dereferences_Header_witness:
  "returned (Handle fragmentLib
      (literalGate (Some \<lparr>X509 = Some \<lparr>ClientCAFile = ''/etc/ca.crt''\<rparr>, Header = None\<rparr>))
      (metricsRequest ''GET'' Map.empty ''alice'')) = Inl NilPointerDereference
   \<and> returned (Handle fragmentLib (literalGate None)
      (metricsRequest ''GET'' Map.empty ''alice'')) = Inl NilPointerDereference
   \<and> returned (Handle fragmentLib (literalGate (Some headerConfig))
      (metricsRequest ''GET'' Map.empty ''alice'')) = Inr True"
proof -
  let ?req = "metricsRequest ''GET'' Map.empty ''alice''"
  let ?q = "literalAttrs (podsIn ''default'') alice ''get''"
  have authn: "AuthenticateRequest (literalGate a) ?req = (alice, True, None)" for a
    by (simp add: gate_defs double_defs)
  have attrs: "GetRequestAttributes fragmentLib (authorizerAttributesGetter (literalGate a))
      alice ?req = Inr [?q]" for a
    by (simp add: gate_defs resolver_defs metricsRequest_def)
  have nonempty: "[?q] \<noteq> []"
    by simp
  have allowed: "\<forall>x\<in>set [?q]. fst (Authorize (literalGate a) x) = DecisionAllow
      \<and> snd (snd (Authorize (literalGate a) x)) = None" for a
    by (simp add: gate_defs double_defs literalAttrs_def)
  show ?thesis
    using Handle_success_dereferences_Header [OF authn attrs nonempty allowed,
        of "Some \<lparr>X509 = Some \<lparr>ClientCAFile = ''/etc/ca.crt''\<rparr>, Header = None\<rparr>"]
      Handle_success_dereferences_Header [OF authn attrs nonempty allowed, of None]
      Handle_success_dereferences_Header [OF authn attrs nonempty allowed, of "Some headerConfig"]
    by (simp add: literalGate_def newKubeRBACProxyAuth_def headerConfig_def)
qed

end
